theory Spec2Isabelle
  imports Complex_Main "HOL-Library.Sublist"
begin

section \<open>JavaScript strings and JSON values\<close>

text \<open>
  A JavaScript string is modelled by the bytes of its UTF-8 encoding (a \<open>string\<close>, that
  is a \<open>char list\<close> of 8-bit characters): concatenation, substring search and splitting
  agree on both representations, and the bytes are what the transport delivers.
\<close>

definition LF :: char where "LF = CHR 0x0A"
definition CR :: char where "CR = CHR 0x0D"
definition DQ :: char where "DQ = CHR 0x22"
definition BSL :: char where "BSL = CHR 0x5C"

text \<open>
  The values \<^verbatim>\<open>JSON.parse\<close> produces. A number keeps its literal text (the model does no
  floating-point arithmetic); an object keeps its members in source order.
  \<^verbatim>\<open>undefined\<close> is modelled by \<open>None\<close> of \<open>json option\<close>.
\<close>

datatype json =
  JNull
  | JBool bool
  | JNum string
  | JStr string
  | JArr "json list"
  | JObj "(string \<times> json) list"

definition is_digit :: "char \<Rightarrow> bool" where
  "is_digit c = (c \<in> set ''0123456789'')"

text \<open>
  A number literal denotes zero when its mantissa has no digit other than 0 (exponent
  underflow of the floating-point value is not modelled).
\<close>

definition num_is_zero :: "string \<Rightarrow> bool" where
  "num_is_zero lit =
     list_all (\<lambda>c. c \<notin> set ''123456789'')
       (takeWhile (\<lambda>c. c \<noteq> CHR ''e'' \<and> c \<noteq> CHR ''E'') lit)"

text \<open>JavaScript truthiness (\<^verbatim>\<open>if (v)\<close>, \<^verbatim>\<open>!v\<close>, \<^verbatim>\<open>v || w\<close>).\<close>

fun truthy :: "json \<Rightarrow> bool" where
  "truthy JNull = False"
| "truthy (JBool b) = b"
| "truthy (JNum lit) = (\<not> num_is_zero lit)"
| "truthy (JStr s) = (s \<noteq> [])"
| "truthy (JArr xs) = True"
| "truthy (JObj kvs) = True"

fun truthy_opt :: "json option \<Rightarrow> bool" where
  "truthy_opt None = False"
| "truthy_opt (Some v) = truthy v"

function show_nat :: "nat \<Rightarrow> string" where
  "show_nat n =
     (if n < 10 then [''0123456789'' ! n]
      else show_nat (n div 10) @ [''0123456789'' ! (n mod 10)])"
  by pat_completeness auto
termination
  by (relation "measure id") auto

definition show_int :: "int \<Rightarrow> string" where
  "show_int i = (if i < 0 then CHR ''-'' # show_nat (nat (- i)) else show_nat (nat i))"

text \<open>
  The number of UTF-16 code units of a string given by its UTF-8 bytes: one for each
  character of one to three bytes, two for each character of four bytes.
\<close>

definition utf16_length :: "string \<Rightarrow> nat" where
  "utf16_length s =
     length (filter (\<lambda>c. (of_char c :: nat) < 0x80 \<or> 0xC0 \<le> (of_char c :: nat)) s) +
     length (filter (\<lambda>c. 0xF0 \<le> (of_char c :: nat)) s)"

text \<open>The first character of a string (its first UTF-8 sequence).\<close>

definition first_character :: "string \<Rightarrow> string" where
  "first_character s =
     (case s of
        [] \<Rightarrow> []
      | c # cs \<Rightarrow>
          c # takeWhile (\<lambda>d. 0x80 \<le> (of_char d :: nat) \<and> (of_char d :: nat) < 0xC0) cs)"

text \<open>
  Property access \<^verbatim>\<open>v.k\<close> and \<^verbatim>\<open>v[i]\<close> on a value other than \<^verbatim>\<open>null\<close> and
  \<^verbatim>\<open>undefined\<close>, for the property names the program reads. An object gives its member
  (the last one of that name, as \<^verbatim>\<open>JSON.parse\<close> keeps the last duplicate; none of the
  names the program reads is inherited from the prototype); an array gives its length and
  its elements; a string gives its length and, for index 0, its first character (where
  JavaScript gives the first code unit; the program reads no other index); numbers and
  booleans have none of these properties.
\<close>

fun js_prop :: "json \<Rightarrow> string \<Rightarrow> json option" where
  "js_prop (JObj kvs) k = map_of (rev kvs) k"
| "js_prop (JArr xs) k =
     (if k = ''length'' then Some (JNum (show_nat (length xs)))
      else (case filter (\<lambda>i. show_nat i = k) [0..<length xs] of
              [] \<Rightarrow> None
            | i # _ \<Rightarrow> Some (xs ! i)))"
| "js_prop (JStr s) k =
     (if k = ''length'' then Some (JNum (show_nat (utf16_length s)))
      else if k = ''0'' \<and> s \<noteq> [] then Some (JStr (first_character s))
      else None)"
| "js_prop JNull k = None"
| "js_prop (JBool b) k = None"
| "js_prop (JNum lit) k = None"

text \<open>Optional chaining \<^verbatim>\<open>v?.k\<close>: \<^verbatim>\<open>undefined\<close> when \<^verbatim>\<open>v\<close> is \<^verbatim>\<open>null\<close> or \<^verbatim>\<open>undefined\<close>.\<close>

fun opt_chain :: "json option \<Rightarrow> string \<Rightarrow> json option" where
  "opt_chain None k = None"
| "opt_chain (Some JNull) k = None"
| "opt_chain (Some v) k = js_prop v k"

text \<open>
  String conversion, as \<^verbatim>\<open>s += v\<close> applies it to a value that is not a string. A number
  is rendered by its literal (exact for the canonical literals of integers).
\<close>

fun js_to_string :: "json \<Rightarrow> string"
  and js_join :: "json list \<Rightarrow> string"
where
  "js_to_string (JStr s) = s"
| "js_to_string JNull = ''null''"
| "js_to_string (JBool b) = (if b then ''true'' else ''false'')"
| "js_to_string (JNum lit) = lit"
| "js_to_string (JObj kvs) = ''[object Object]''"
| "js_to_string (JArr xs) = js_join xs"
| "js_join [] = []"
| "js_join [x] = (if x = JNull then [] else js_to_string x)"
| "js_join (x # y # ys) = (if x = JNull then [] else js_to_string x) @ '','' @ js_join (y # ys)"

subsection \<open>JSON.parse\<close>

definition is_json_ws :: "char \<Rightarrow> bool" where
  "is_json_ws c = (c = CHR 0x20 \<or> c = CHR 0x09 \<or> c = LF \<or> c = CR)"

definition skip_ws :: "string \<Rightarrow> string" where
  "skip_ws s = dropWhile is_json_ws s"

definition strip_prefix :: "string \<Rightarrow> string \<Rightarrow> string option" where
  "strip_prefix p s = (if prefix p s then Some (drop (length p) s) else None)"

text \<open>
  A number literal: an optional minus, an integer part without a leading zero, an
  optional fraction, an optional exponent. The result is the literal and the rest.
\<close>

definition lex_digits :: "string \<Rightarrow> (string \<times> string) option" where
  "lex_digits s =
     (if takeWhile is_digit s = [] then None
      else Some (takeWhile is_digit s, dropWhile is_digit s))"

definition lex_fraction :: "string \<Rightarrow> (string \<times> string) option" where
  "lex_fraction s =
     (case s of
        [] \<Rightarrow> Some ([], s)
      | c # cs \<Rightarrow>
          if c = CHR ''.'' then map_option (\<lambda>(d, r). (c # d, r)) (lex_digits cs)
          else Some ([], s))"

definition lex_exponent :: "string \<Rightarrow> (string \<times> string) option" where
  "lex_exponent s =
     (case s of
        [] \<Rightarrow> Some ([], s)
      | c # cs \<Rightarrow>
          if c = CHR ''e'' \<or> c = CHR ''E'' then
            (case cs of
               [] \<Rightarrow> None
             | g # gs \<Rightarrow>
                 if g = CHR ''+'' \<or> g = CHR ''-''
                 then map_option (\<lambda>(d, r). (c # g # d, r)) (lex_digits gs)
                 else map_option (\<lambda>(d, r). (c # d, r)) (lex_digits cs))
          else Some ([], s))"

definition lex_number :: "string \<Rightarrow> (string \<times> string) option" where
  "lex_number s =
     (let sign = (if prefix ''-'' s then ''-'' else []);
          s1 = drop (length sign) s
      in case lex_digits s1 of
           None \<Rightarrow> None
         | Some (ip, s2) \<Rightarrow>
             if 1 < length ip \<and> hd ip = CHR ''0'' then None
             else (case lex_fraction s2 of
                     None \<Rightarrow> None
                   | Some (fp, s3) \<Rightarrow>
                       (case lex_exponent s3 of
                          None \<Rightarrow> None
                        | Some (ep, s4) \<Rightarrow> Some (sign @ ip @ fp @ ep, s4))))"

text \<open>UTF-8 encoding of a code point (also of a lone surrogate, which JavaScript strings admit).\<close>

definition utf8_encode :: "nat \<Rightarrow> string" where
  "utf8_encode n =
     (if n < 0x80 then [char_of n]
      else if n < 0x800 then [char_of (0xC0 + n div 64), char_of (0x80 + n mod 64)]
      else if n < 0x10000 then
        [char_of (0xE0 + n div 4096), char_of (0x80 + (n div 64) mod 64), char_of (0x80 + n mod 64)]
      else
        [char_of (0xF0 + n div 262144), char_of (0x80 + (n div 4096) mod 64),
         char_of (0x80 + (n div 64) mod 64), char_of (0x80 + n mod 64)])"

definition hex_digit :: "char \<Rightarrow> nat option" where
  "hex_digit c =
     (if c \<in> set ''0123456789'' then Some (of_char c - 48)
      else if c \<in> set ''abcdef'' then Some (of_char c - 87)
      else if c \<in> set ''ABCDEF'' then Some (of_char c - 55)
      else None)"

definition hex4 :: "char \<Rightarrow> char \<Rightarrow> char \<Rightarrow> char \<Rightarrow> nat option" where
  "hex4 a b c d =
     (case (hex_digit a, hex_digit b, hex_digit c, hex_digit d) of
        (Some w, Some x, Some y, Some z) \<Rightarrow> Some (((w * 16 + x) * 16 + y) * 16 + z)
      | _ \<Rightarrow> None)"

definition simple_escape :: "char \<Rightarrow> char option" where
  "simple_escape e =
     (if e = DQ then Some DQ
      else if e = BSL then Some BSL
      else if e = CHR ''/'' then Some (CHR ''/'')
      else if e = CHR ''b'' then Some (CHR 0x08)
      else if e = CHR ''f'' then Some (CHR 0x0C)
      else if e = CHR ''n'' then Some LF
      else if e = CHR ''r'' then Some CR
      else if e = CHR ''t'' then Some (CHR 0x09)
      else None)"

text \<open>
  The characters of a string literal after its opening quote, up to the closing quote:
  raw bytes, and the UTF-16 code units that \<^verbatim>\<open>\uXXXX\<close> escapes denote.
\<close>

datatype str_item = Raw char | Unit nat

fun lex_string_items :: "string \<Rightarrow> (str_item list \<times> string) option" where
  "lex_string_items [] = None"
| "lex_string_items (c # cs) =
     (if c = DQ then Some ([], cs)
      else if c = BSL then
        (case cs of
           [] \<Rightarrow> None
         | e # es \<Rightarrow>
             if e = CHR ''u'' then
               (case es of
                  h1 # h2 # h3 # h4 # rest \<Rightarrow>
                    (case hex4 h1 h2 h3 h4 of
                       None \<Rightarrow> None
                     | Some n \<Rightarrow> map_option (\<lambda>(is, r). (Unit n # is, r)) (lex_string_items rest))
                | _ \<Rightarrow> None)
             else
               (case simple_escape e of
                  None \<Rightarrow> None
                | Some ch \<Rightarrow> map_option (\<lambda>(is, r). (Raw ch # is, r)) (lex_string_items es)))
      else if (of_char c :: nat) < 0x20 then None
      else map_option (\<lambda>(is, r). (Raw c # is, r)) (lex_string_items cs))"

text \<open>A high surrogate followed by a low surrogate is one code point.\<close>

fun items_to_string :: "str_item list \<Rightarrow> string" where
  "items_to_string [] = []"
| "items_to_string (Raw c # is) = c # items_to_string is"
| "items_to_string (Unit h # Unit l # is) =
     (if 0xD800 \<le> h \<and> h < 0xDC00 \<and> 0xDC00 \<le> l \<and> l < 0xE000
      then utf8_encode (0x10000 + (h - 0xD800) * 1024 + (l - 0xDC00)) @ items_to_string is
      else utf8_encode h @ items_to_string (Unit l # is))"
| "items_to_string (Unit u # is) = utf8_encode u @ items_to_string is"

definition lex_string :: "string \<Rightarrow> (string \<times> string) option" where
  "lex_string s = map_option (\<lambda>(is, r). (items_to_string is, r)) (lex_string_items s)"

text \<open>
  The recursive-descent parser. Its first argument bounds the depth of the recursion;
  every call consumes a character of its own, so the length of the text is enough.
\<close>

fun parse_value :: "nat \<Rightarrow> string \<Rightarrow> (json \<times> string) option"
  and parse_elements :: "nat \<Rightarrow> string \<Rightarrow> (json list \<times> string) option"
  and parse_members :: "nat \<Rightarrow> string \<Rightarrow> ((string \<times> json) list \<times> string) option"
where
  "parse_value 0 s = None"
| "parse_value (Suc n) [] = None"
| "parse_value (Suc n) (c # cs) =
     (if c = CHR ''{'' then
        (case skip_ws cs of
           [] \<Rightarrow> None
         | d # ds \<Rightarrow>
             if d = CHR ''}'' then Some (JObj [], ds)
             else map_option (\<lambda>(m, r). (JObj m, r)) (parse_members n (d # ds)))
      else if c = CHR ''['' then
        (case skip_ws cs of
           [] \<Rightarrow> None
         | d # ds \<Rightarrow>
             if d = CHR '']'' then Some (JArr [], ds)
             else map_option (\<lambda>(xs, r). (JArr xs, r)) (parse_elements n (d # ds)))
      else if c = DQ then map_option (\<lambda>(s, r). (JStr s, r)) (lex_string cs)
      else if c = CHR ''t'' then map_option (\<lambda>r. (JBool True, r)) (strip_prefix ''rue'' cs)
      else if c = CHR ''f'' then map_option (\<lambda>r. (JBool False, r)) (strip_prefix ''alse'' cs)
      else if c = CHR ''n'' then map_option (\<lambda>r. (JNull, r)) (strip_prefix ''ull'' cs)
      else map_option (\<lambda>(lit, r). (JNum lit, r)) (lex_number (c # cs)))"
| "parse_elements 0 s = None"
| "parse_elements (Suc n) s =
     (case parse_value n s of
        None \<Rightarrow> None
      | Some (v, r) \<Rightarrow>
          (case skip_ws r of
             [] \<Rightarrow> None
           | d # ds \<Rightarrow>
               if d = CHR '','' then
                 map_option (\<lambda>(xs, r'). (v # xs, r')) (parse_elements n (skip_ws ds))
               else if d = CHR '']'' then Some ([v], ds)
               else None))"
| "parse_members 0 s = None"
| "parse_members (Suc n) s =
     (case s of
        [] \<Rightarrow> None
      | q # qs \<Rightarrow>
          if q \<noteq> DQ then None
          else
            (case lex_string qs of
               None \<Rightarrow> None
             | Some (k, r) \<Rightarrow>
                 (case skip_ws r of
                    [] \<Rightarrow> None
                  | d # ds \<Rightarrow>
                      if d \<noteq> CHR '':'' then None
                      else
                        (case parse_value n (skip_ws ds) of
                           None \<Rightarrow> None
                         | Some (v, r2) \<Rightarrow>
                             (case skip_ws r2 of
                                [] \<Rightarrow> None
                              | e # es \<Rightarrow>
                                  if e = CHR '','' then
                                    map_option (\<lambda>(m, r'). ((k, v) # m, r'))
                                      (parse_members n (skip_ws es))
                                  else if e = CHR ''}'' then Some ([(k, v)], es)
                                  else None)))))"

text \<open>
  \<^verbatim>\<open>JSON.parse(text)\<close>: the value, or \<open>None\<close> where JavaScript throws a
  \<^verbatim>\<open>SyntaxError\<close>.
\<close>

definition JSON_parse :: "string \<Rightarrow> json option" where
  "JSON_parse s =
     (case parse_value (Suc (length s)) (skip_ws s) of
        None \<Rightarrow> None
      | Some (v, r) \<Rightarrow> if skip_ws r = [] then Some v else None)"

subsection \<open>String.prototype.trim\<close>

text \<open>
  The white space and line terminators of ECMAScript, as UTF-8 byte sequences: TAB, LF,
  VT, FF, CR, SP, U+00A0, U+1680, U+2000 to U+200A, U+2028, U+2029, U+202F, U+205F,
  U+3000 and U+FEFF.
\<close>

definition js_white_space :: "string list" where
  "js_white_space =
     [[CHR 0x09], [CHR 0x0A], [CHR 0x0B], [CHR 0x0C], [CHR 0x0D], [CHR 0x20],
      [CHR 0xC2, CHR 0xA0], [CHR 0xE1, CHR 0x9A, CHR 0x80], [CHR 0xE2, CHR 0x80, CHR 0x80],
      [CHR 0xE2, CHR 0x80, CHR 0x81], [CHR 0xE2, CHR 0x80, CHR 0x82],
      [CHR 0xE2, CHR 0x80, CHR 0x83], [CHR 0xE2, CHR 0x80, CHR 0x84],
      [CHR 0xE2, CHR 0x80, CHR 0x85], [CHR 0xE2, CHR 0x80, CHR 0x86],
      [CHR 0xE2, CHR 0x80, CHR 0x87], [CHR 0xE2, CHR 0x80, CHR 0x88],
      [CHR 0xE2, CHR 0x80, CHR 0x89], [CHR 0xE2, CHR 0x80, CHR 0x8A],
      [CHR 0xE2, CHR 0x80, CHR 0xA8], [CHR 0xE2, CHR 0x80, CHR 0xA9],
      [CHR 0xE2, CHR 0x80, CHR 0xAF], [CHR 0xE2, CHR 0x81, CHR 0x9F],
      [CHR 0xE3, CHR 0x80, CHR 0x80], [CHR 0xEF, CHR 0xBB, CHR 0xBF]]"

text \<open>The same sequences, each reversed: for trimming the end of a string.\<close>

definition js_white_space_reversed :: "string list" where
  "js_white_space_reversed =
     [[CHR 0x09], [CHR 0x0A], [CHR 0x0B], [CHR 0x0C], [CHR 0x0D], [CHR 0x20],
      [CHR 0xA0, CHR 0xC2], [CHR 0x80, CHR 0x9A, CHR 0xE1], [CHR 0x80, CHR 0x80, CHR 0xE2],
      [CHR 0x81, CHR 0x80, CHR 0xE2], [CHR 0x82, CHR 0x80, CHR 0xE2],
      [CHR 0x83, CHR 0x80, CHR 0xE2], [CHR 0x84, CHR 0x80, CHR 0xE2],
      [CHR 0x85, CHR 0x80, CHR 0xE2], [CHR 0x86, CHR 0x80, CHR 0xE2],
      [CHR 0x87, CHR 0x80, CHR 0xE2], [CHR 0x88, CHR 0x80, CHR 0xE2],
      [CHR 0x89, CHR 0x80, CHR 0xE2], [CHR 0x8A, CHR 0x80, CHR 0xE2],
      [CHR 0xA8, CHR 0x80, CHR 0xE2], [CHR 0xA9, CHR 0x80, CHR 0xE2],
      [CHR 0xAF, CHR 0x80, CHR 0xE2], [CHR 0x9F, CHR 0x81, CHR 0xE2],
      [CHR 0x80, CHR 0x80, CHR 0xE3], [CHR 0xBF, CHR 0xBB, CHR 0xEF]]"

function strip_leading :: "string list \<Rightarrow> string \<Rightarrow> string" where
  "strip_leading seqs s =
     (case find (\<lambda>q. q \<noteq> [] \<and> prefix q s) seqs of
        None \<Rightarrow> s
      | Some q \<Rightarrow> strip_leading seqs (drop (length q) s))"
  by pat_completeness auto
termination
  by (relation "measure (\<lambda>(seqs, s). length s)") (auto simp: find_Some_iff prefix_def)

definition js_trim :: "string \<Rightarrow> string" where
  "js_trim s = rev (strip_leading js_white_space_reversed (rev (strip_leading js_white_space s)))"

section \<open>Data model (interfaces.ts)\<close>

text \<open>
  Roles of a message: the string union \<^verbatim>\<open>"user" | "assistant" | "system"\<close>.
\<close>

datatype role = User | Assistant | System

text \<open>
  The model enumerations. At run time a model is the string of its enumerator, and
  \<^verbatim>\<open>Object.values(E).includes(m)\<close> is membership in the list of these strings.
\<close>

definition ClaudeModel :: "string list" where
  "ClaudeModel =
     [''claude-3-haiku-20240307'', ''claude-3-sonnet-20240229'', ''claude-3-opus-20240229'']"

definition ClaudeModel_SONNET :: string where
  "ClaudeModel_SONNET = ''claude-3-sonnet-20240229''"

definition GPTModel :: "string list" where
  "GPTModel =
     [''gpt-3.5-turbo-0613'', ''gpt-3.5-turbo-16k-0613'', ''gpt-3.5-turbo-0125'',
      ''gpt-4-1106-preview'', ''gpt-4-0125-preview'', ''gpt-4-turbo-2024-04-09'', ''gpt-4o'']"

definition GPTModel_GPT4_0409 :: string where
  "GPTModel_GPT4_0409 = ''gpt-4-turbo-2024-04-09''"

definition GroqModel :: "string list" where
  "GroqModel = [''llama3-70b-8192'']"

definition GeminiModel :: "string list" where
  "GeminiModel = [''gemini-1.5-pro-latest'']"

text \<open>
  \<^verbatim>\<open>FunctionCall\<close> and \<^verbatim>\<open>ParsedResponseMessage\<close>. The role of a parsed response is
  always \<^verbatim>\<open>"assistant"\<close>. The other fields hold what the provider path puts there at
  run time, which for the paths that read a JSON body is any JSON value; \<open>None\<close> stands
  for \<^verbatim>\<open>null\<close> and for \<^verbatim>\<open>undefined\<close>.
\<close>

record function_call =
  fc_name :: "json option"
  fc_arguments :: "json option"

record parsed_response_message =
  p_role :: role
  p_content :: "json option"
  p_function_call :: "function_call option"

text \<open>\<^verbatim>\<open>FunctionDefinition\<close> and its wrapper \<^verbatim>\<open>{ type: "function", function: fn }\<close>.\<close>

record function_definition =
  fd_name :: string
  fd_description :: "string option"
  fd_parameters :: json

datatype function_wrapped = FunctionWrapped function_definition

fun wrapped_function :: "function_wrapped \<Rightarrow> function_definition" where
  "wrapped_function (FunctionWrapped fn) = fn"

text \<open>\<^verbatim>\<open>"none" | "auto" | { type: "function"; function: { name } }\<close>\<close>

datatype tool_choice = ToolChoiceNone | ToolChoiceAuto | ToolChoiceFunction string

text \<open>\<^verbatim>\<open>OpenAIContentBlock\<close>, \<^verbatim>\<open>OpenAIMessage\<close>, \<^verbatim>\<open>OpenAIPayload\<close>, \<^verbatim>\<open>OpenAIConfig\<close>.\<close>

datatype openai_content_block =
  OText string
  | OImageUrl string
  | OAudioUrl string

datatype openai_content =
  OStr string
  | OBlocks "openai_content_block list"

record openai_message =
  o_role :: role
  o_content :: openai_content

record openai_payload =
  op_model :: string
  op_messages :: "openai_message list"
  op_tools :: "function_wrapped list option"
  op_tool_choice :: "tool_choice option"
  op_temperature :: "real option"

datatype openai_service = Azure | OpenAI

record azure_model_config =
  az_endpoint :: "string option"
  az_deployment :: string
  az_apiVersion :: string
  az_apiKey :: string

record openai_config =
  oc_service :: openai_service
  oc_apiKey :: string
  oc_baseUrl :: string
  oc_orgId :: "string option"
  oc_modelConfigMap :: "(string \<times> azure_model_config) list option"

text \<open>
  \<^verbatim>\<open>AnthropicContentBlock\<close>: a text block, or a base64 image block with its media type
  and data. \<^verbatim>\<open>AnthropicAIMessage.content\<close> is either a plain string or an array of blocks.
\<close>

datatype anthropic_content_block =
  AText string
  | AImage string string

datatype anthropic_content =
  AStr string
  | ABlocks "anthropic_content_block list"

record anthropic_message =
  a_role :: role
  a_content :: anthropic_content

record anthropic_payload =
  ap_model :: string
  ap_messages :: "anthropic_message list"
  ap_functions :: "function_definition list option"
  ap_temperature :: "real option"
  ap_system :: "string option"

datatype anthropic_service = AnthropicService | Bedrock

text \<open>\<^verbatim>\<open>File\<close>, \<^verbatim>\<open>GenericMessage\<close>, \<^verbatim>\<open>GenericPayload\<close> (the fields index.ts reads).\<close>

record file_attachment =
  f_mimeType :: string
  f_url :: "string option"
  f_data :: "string option"

record generic_message =
  g_role :: role
  g_content :: string
  g_files :: "file_attachment list option"

datatype function_call_directive = DirectiveNone | DirectiveAuto | DirectiveName string

record generic_payload =
  gp_model :: string
  gp_messages :: "generic_message list"
  gp_functions :: "function_definition list option"
  gp_function_call :: "function_call_directive option"
  gp_temperature :: "real option"

text \<open>
  A thrown JavaScript error: its name (\<^verbatim>\<open>Error\<close>, \<^verbatim>\<open>TypeError\<close>, \<^verbatim>\<open>SyntaxError\<close>, or
  what the transport rejects with), its message, and the properties the program attaches
  or reads: \<^verbatim>\<open>data\<close> and \<^verbatim>\<open>requestBody\<close> (set by the stream reader on a provider
  error), \<^verbatim>\<open>response.data\<close> (set by the HTTP client) and \<^verbatim>\<open>response\<close> (set on the
  aggregate error of the Anthropic and Groq retry loops). The message of an error thrown
  by the runtime itself depends on the engine; the model leaves it empty.
\<close>

record js_error =
  er_name :: string
  er_message :: string
  er_data :: "json option"
  er_requestBody :: "openai_payload option"
  er_response_data :: "json option"
  er_response :: "parsed_response_message option"

definition new_Error :: "string \<Rightarrow> js_error" where
  "new_Error msg =
     \<lparr>er_name = ''Error'', er_message = msg, er_data = None, er_requestBody = None,
      er_response_data = None, er_response = None\<rparr>"

definition TypeError :: js_error where
  "TypeError = (new_Error [])\<lparr>er_name := ''TypeError''\<rparr>"

definition SyntaxError :: js_error where
  "SyntaxError = (new_Error [])\<lparr>er_name := ''SyntaxError''\<rparr>"

section \<open>Streaming response parser (parseStreamedResponse, callOpenAIStream)\<close>

text \<open>
  \<^verbatim>\<open>parseStreamedResponse(identifier, paragraph, functionCallName, functionCallArgs,
  allowedFunctionNames)\<close>. The identifier only labels console output and is left out. The
  result is \<open>Inl\<close> of the error thrown, or \<open>Inr\<close> of the message returned.
\<close>

definition parseStreamedResponse ::
  "string \<Rightarrow> string \<Rightarrow> string \<Rightarrow> string list option \<Rightarrow> js_error + parsed_response_message"
where
  "parseStreamedResponse paragraph functionCallName functionCallArgs allowedFunctionNames =
     (case
        (if functionCallName \<noteq> [] \<and> functionCallArgs \<noteq> [] then
           (if (case allowedFunctionNames of
                  None \<Rightarrow> False
                | Some names \<Rightarrow> functionCallName \<notin> set names)
            then Inl (new_Error (''Stream error: received function call with unknown name: '' @
                                 functionCallName))
            else (case JSON_parse functionCallArgs of
                    None \<Rightarrow> Inl SyntaxError
                  | Some args \<Rightarrow>
                      Inr (Some \<lparr>fc_name = Some (JStr functionCallName),
                                 fc_arguments = Some args\<rparr>)))
         else Inr None)
      of
        Inl e \<Rightarrow> Inl e
      | Inr functionCall \<Rightarrow>
          if paragraph = [] \<and> functionCall = None then
            Inl (new_Error ''Stream error: received message without content or function_call'')
          else
            Inr \<lparr>p_role = Assistant,
                 p_content = (if paragraph = [] then None else Some (JStr paragraph)),
                 p_function_call = functionCall\<rparr>)"

subsection \<open>TextDecoder\<close>

text \<open>
  \<^verbatim>\<open>new TextDecoder().decode(value)\<close>: the UTF-8 decoder of the Encoding standard, run on
  one buffer on its own (the source passes no \<^verbatim>\<open>stream\<close> option, so no state is carried
  from one buffer to the next). Each maximal ill-formed or truncated sequence becomes
  U+FFFD, and a byte order mark at the start of the buffer is dropped. The result is
  given by its UTF-8 bytes. A byte below 0x80 is one whose highest bit (\<open>digit7\<close>) is
  clear.
\<close>

definition replacement_character :: string where
  "replacement_character = [CHR 0xEF, CHR 0xBF, CHR 0xBD]"

definition in_range :: "nat \<Rightarrow> nat \<Rightarrow> char \<Rightarrow> bool" where
  "in_range lo hi c = (lo \<le> (of_char c :: nat) \<and> (of_char c :: nat) \<le> hi)"

fun utf8_decode :: "string \<Rightarrow> string" where
  "utf8_decode [] = []"
| "utf8_decode (b # bs) =
     (if \<not> digit7 b then b # utf8_decode bs
      else if in_range 0xC2 0xDF b then
        (case bs of
           [] \<Rightarrow> replacement_character
         | c # cs \<Rightarrow>
             if in_range 0x80 0xBF c then b # c # utf8_decode cs
             else replacement_character @ utf8_decode (c # cs))
      else if in_range 0xE0 0xEF b then
        (case bs of
           [] \<Rightarrow> replacement_character
         | c # cs \<Rightarrow>
             if in_range (if b = CHR 0xE0 then 0xA0 else 0x80)
                         (if b = CHR 0xED then 0x9F else 0xBF) c
             then
               (case cs of
                  [] \<Rightarrow> replacement_character
                | d # ds \<Rightarrow>
                    if in_range 0x80 0xBF d then b # c # d # utf8_decode ds
                    else replacement_character @ utf8_decode (d # ds))
             else replacement_character @ utf8_decode (c # cs))
      else if in_range 0xF0 0xF4 b then
        (case bs of
           [] \<Rightarrow> replacement_character
         | c # cs \<Rightarrow>
             if in_range (if b = CHR 0xF0 then 0x90 else 0x80)
                         (if b = CHR 0xF4 then 0x8F else 0xBF) c
             then
               (case cs of
                  [] \<Rightarrow> replacement_character
                | d # ds \<Rightarrow>
                    if in_range 0x80 0xBF d then
                      (case ds of
                         [] \<Rightarrow> replacement_character
                       | e # es \<Rightarrow>
                           if in_range 0x80 0xBF e then b # c # d # e # utf8_decode es
                           else replacement_character @ utf8_decode (e # es))
                    else replacement_character @ utf8_decode (d # ds))
             else replacement_character @ utf8_decode (c # cs))
      else replacement_character @ utf8_decode bs)"

definition byte_order_mark :: string where
  "byte_order_mark = [CHR 0xEF, CHR 0xBB, CHR 0xBF]"

definition TextDecoder_decode :: "string \<Rightarrow> string" where
  "TextDecoder_decode bytes =
     (let text = utf8_decode bytes
      in if prefix byte_order_mark text then drop 3 text else text)"

subsection \<open>Splitting a chunk into records\<close>

text \<open>
  \<^verbatim>\<open>chunk.split(/^data: /gm)\<close>: the pieces of the chunk between the occurrences of
  \<^verbatim>\<open>data: \<close> that stand at the start of the chunk or right after a line terminator
  (LF, CR, U+2028, U+2029). The first argument says whether the position is such a line
  start, the second is the piece collected so far.
\<close>

definition line_separators :: "string list" where
  "line_separators = [[CHR 0xE2, CHR 0x80, CHR 0xA8], [CHR 0xE2, CHR 0x80, CHR 0xA9]]"

function split_from :: "bool \<Rightarrow> string \<Rightarrow> string \<Rightarrow> string list" where
  "split_from at_line_start piece s =
     (if s = [] then [piece]
      else if at_line_start \<and> prefix ''data: '' s then piece # split_from False [] (drop 6 s)
      else if list_ex (\<lambda>t. prefix t s) line_separators then
        split_from True (piece @ take 3 s) (drop 3 s)
      else split_from (hd s = LF \<or> hd s = CR) (piece @ [hd s]) (tl s))"
  by pat_completeness auto
termination
  by (relation "measure (\<lambda>(b, piece, s). length s)") (auto simp: prefix_def)

definition split_data :: "string \<Rightarrow> string list" where
  "split_data chunk = split_from True [] chunk"

text \<open>\<^verbatim>\<open>s.includes(t)\<close>\<close>

definition js_includes :: "string \<Rightarrow> string \<Rightarrow> bool" where
  "js_includes s t = sublist t s"

subsection \<open>The record loop\<close>

text \<open>
  The variables of one stream: the accumulated text (\<^verbatim>\<open>paragraph\<close>), function-call name and arguments,
  the leftover partial record, the raw body kept for diagnostics, and the
  \<^verbatim>\<open>console.error\<close> lines the record loop prints while it continues (the lines printed
  right before a return or a throw are not kept).
\<close>

record stream_state =
  paragraph_acc :: string
  functionCallName :: string
  functionCallArgs :: string
  partialChunk :: string
  rawStreamedBody :: string
  console :: "string list"

definition initial_stream_state :: stream_state where
  "initial_stream_state =
     \<lparr>paragraph_acc = [], functionCallName = [], functionCallArgs = [], partialChunk = [],
      rawStreamedBody = [], console = []\<rparr>"

text \<open>
  How one iteration of a loop ends: it goes on with the next iteration, the enclosing
  function returns a message, or it throws.
\<close>

datatype 'a outcome = Continue 'a | Return parsed_response_message | Throw js_error

text \<open>\<^verbatim>\<open>v || w\<close> and \<^verbatim>\<open>v === 0\<close>\<close>

definition js_or :: "json option \<Rightarrow> json option \<Rightarrow> json option" where
  "js_or v w = (if truthy_opt v then v else w)"

fun strict_equals_zero :: "json option \<Rightarrow> bool" where
  "strict_equals_zero (Some (JNum lit)) = num_is_zero lit"
| "strict_equals_zero v = False"

text \<open>\<^verbatim>\<open>if (v) s += v\<close>\<close>

fun append_if_truthy :: "string \<Rightarrow> json option \<Rightarrow> string" where
  "append_if_truthy s None = s"
| "append_if_truthy s (Some v) = (if truthy v then s @ js_to_string v else s)"

text \<open>
  Lines 404 to 426: the first tool call of the first choice's delta adds to the
  function-call name and arguments when its index is 0 (or missing); the delta's content
  adds to the text.
\<close>

definition accumulate_delta :: "json \<Rightarrow> stream_state \<Rightarrow> stream_state" where
  "accumulate_delta json st =
     (let delta = opt_chain (opt_chain (js_prop json ''choices'') ''0'') ''delta'';
          dToolCall = opt_chain (opt_chain delta ''tool_calls'') ''0'';
          st1 =
            (if truthy_opt dToolCall then
               let toolCallIndex = js_or (opt_chain dToolCall ''index'') (Some (JNum ''0''))
               in if strict_equals_zero toolCallIndex then
                    let dFn = js_or (opt_chain dToolCall ''function'') (Some (JObj []))
                    in st\<lparr>functionCallName :=
                             append_if_truthy (functionCallName st) (opt_chain dFn ''name''),
                           functionCallArgs :=
                             append_if_truthy (functionCallArgs st) (opt_chain dFn ''arguments'')\<rparr>
                  else st
             else st);
          text = opt_chain delta ''content''
      in st1\<lparr>paragraph_acc := append_if_truthy (paragraph_acc st1) text\<rparr>)"

text \<open>
  \<^verbatim>\<open>!json.choices || !json.choices.length\<close>, for a value other than \<^verbatim>\<open>null\<close>.
\<close>

definition no_choices :: "json \<Rightarrow> bool" where
  "no_choices json =
     (\<not> truthy_opt (js_prop json ''choices'') \<or>
      \<not> truthy_opt (opt_chain (js_prop json ''choices'') ''length''))"

text \<open>
  The body of \<^verbatim>\<open>for (let jsonString of jsonStrings)\<close>, lines 347 to 427, for one piece.
  \<open>functionNames\<close> is the set of tool names of the payload (or \<^verbatim>\<open>null\<close>), \<open>chunkIndex\<close>
  the index of the network read the piece came with.
\<close>

definition process_jsonString ::
  "openai_payload \<Rightarrow> string list option \<Rightarrow> nat \<Rightarrow> stream_state \<Rightarrow> string \<Rightarrow> stream_state outcome"
where
  "process_jsonString openAiPayload functionNames chunkIndex st jsonString =
     (if jsonString = [] then Continue st
      else if js_includes jsonString ''[DONE]'' then
        (case parseStreamedResponse (paragraph_acc st) (functionCallName st) (functionCallArgs st)
                functionNames of
           Inr message \<Rightarrow> Return message
         | Inl error \<Rightarrow> Throw error)
      else
        (case JSON_parse (js_trim jsonString) of
           None \<Rightarrow> Continue (st\<lparr>partialChunk := jsonString\<rparr>)
         | Some json \<Rightarrow>
             if json = JNull then Throw TypeError
             else if no_choices json then
               (if truthy_opt (js_prop json ''error'') then
                  Throw ((new_Error ''Stream error: OpenAI error'')
                           \<lparr>er_data := js_prop json ''error'',
                            er_requestBody := Some openAiPayload\<rparr>)
                else if chunkIndex \<noteq> 0 then
                  Continue (st\<lparr>console := console st @ [''Stream error: no choices in JSON:'']\<rparr>)
                else Continue st)
             else Continue (accumulate_delta json st)))"

fun process_jsonStrings ::
  "openai_payload \<Rightarrow> string list option \<Rightarrow> nat \<Rightarrow> stream_state \<Rightarrow> string list \<Rightarrow> stream_state outcome"
where
  "process_jsonStrings openAiPayload functionNames chunkIndex st [] = Continue st"
| "process_jsonStrings openAiPayload functionNames chunkIndex st (jsonString # rest) =
     (case process_jsonString openAiPayload functionNames chunkIndex st jsonString of
        Continue st' \<Rightarrow> process_jsonStrings openAiPayload functionNames chunkIndex st' rest
      | Return message \<Rightarrow> Return message
      | Throw error \<Rightarrow> Throw error)"

text \<open>
  Lines 339 to 345 and the record loop, for one buffer the reader delivered: decode it,
  add it to the raw body, put the leftover partial record in front, split, and process
  the pieces in order.
\<close>

definition process_chunk ::
  "openai_payload \<Rightarrow> string list option \<Rightarrow> nat \<Rightarrow> stream_state \<Rightarrow> string \<Rightarrow> stream_state outcome"
where
  "process_chunk openAiPayload functionNames chunkIndex st bytes =
     (let chunk = TextDecoder_decode bytes;
          st1 = st\<lparr>rawStreamedBody := rawStreamedBody st @ chunk @ [LF]\<rparr>;
          chunk' = (if partialChunk st1 \<noteq> [] then partialChunk st1 @ chunk else chunk);
          st2 = (if partialChunk st1 \<noteq> [] then st1\<lparr>partialChunk := []\<rparr> else st1)
      in process_jsonStrings openAiPayload functionNames chunkIndex st2 (split_data chunk'))"

subsection \<open>The read loop\<close>

text \<open>
  What \<^verbatim>\<open>await reader.read()\<close> gives: a buffer of bytes, the done flag, or a rejection
  (the network failed, or the per-chunk timeout aborted the request). The transport is a
  list of these results, in the order of the reads; a reader whose list is used up
  reports done.
\<close>

datatype read_result = Value string | Done | Rejected js_error

fun read_loop ::
  "openai_payload \<Rightarrow> string list option \<Rightarrow> nat \<Rightarrow> stream_state \<Rightarrow> read_result list \<Rightarrow>
     js_error + parsed_response_message"
where
  "read_loop openAiPayload functionNames chunkIndex st [] =
     Inl (new_Error ''Stream error: ended prematurely'')"
| "read_loop openAiPayload functionNames chunkIndex st (Done # reads) =
     Inl (new_Error ''Stream error: ended prematurely'')"
| "read_loop openAiPayload functionNames chunkIndex st (Rejected error # reads) = Inl error"
| "read_loop openAiPayload functionNames chunkIndex st (Value bytes # reads) =
     (case process_chunk openAiPayload functionNames chunkIndex st bytes of
        Continue st' \<Rightarrow> read_loop openAiPayload functionNames (Suc chunkIndex) st' reads
      | Return message \<Rightarrow> Inr message
      | Throw error \<Rightarrow> Inl error)"

text \<open>
  What \<^verbatim>\<open>await fetch(endpoint, ...)\<close> gives: a rejection, or a response whose body is
  missing or is a stream of reads.
\<close>

datatype fetch_result = FetchRejected js_error | Response "read_result list option"

text \<open>
  \<^verbatim>\<open>callOpenAIStream(identifier, openAiPayload, openAiConfig, chunkTimeoutMs)\<close>. The first
  argument is the transport: what the request with this payload and configuration is
  answered with. A missing configuration is replaced by the direct OpenAI service (the
  key read from the environment is left empty). For Azure the model's entry of
  \<^verbatim>\<open>modelConfigMap\<close> must exist and name an endpoint.
\<close>

definition default_config :: openai_config where
  "default_config =
     \<lparr>oc_service = OpenAI, oc_apiKey = [], oc_baseUrl = [], oc_orgId = None,
      oc_modelConfigMap = None\<rparr>"

definition callOpenAIStream ::
  "(openai_payload \<Rightarrow> openai_config \<Rightarrow> fetch_result) \<Rightarrow> openai_payload \<Rightarrow> openai_config option \<Rightarrow>
     js_error + parsed_response_message"
where
  "callOpenAIStream fetch openAiPayload openAiConfig =
     (let functionNames =
            map_option (map (\<lambda>fn. fd_name (wrapped_function fn))) (op_tools openAiPayload);
          config = (case openAiConfig of None \<Rightarrow> default_config | Some c \<Rightarrow> c);
          checked =
            (if oc_service config = Azure then
               (case oc_modelConfigMap config of
                  None \<Rightarrow>
                    Inl (new_Error
                      ''OpenAI config modelConfigMap is required when using Azure OpenAI service.'')
                | Some m \<Rightarrow>
                    (case map_of m (op_model openAiPayload) of
                       None \<Rightarrow> Inl TypeError
                     | Some azureConfig \<Rightarrow>
                         (case az_endpoint azureConfig of
                            None \<Rightarrow>
                              Inl (new_Error ''Azure OpenAI endpoint is required in modelConfigMap.'')
                          | Some e \<Rightarrow>
                              if e = [] then
                                Inl (new_Error ''Azure OpenAI endpoint is required in modelConfigMap.'')
                              else Inr ())))
             else Inr ())
      in case checked of
           Inl error \<Rightarrow> Inl error
         | Inr u \<Rightarrow>
             (case fetch openAiPayload config of
                FetchRejected error \<Rightarrow> Inl error
              | Response None \<Rightarrow> Inl (new_Error ''Stream error: no response body'')
              | Response (Some reads) \<Rightarrow>
                  read_loop openAiPayload functionNames 0 initial_stream_state reads))"

text \<open>
  The iterations of the read loop over a run of buffers, as long as none of them returns
  or throws: the state the loop is in when it asks the reader for the next result.
\<close>

fun process_chunks ::
  "openai_payload \<Rightarrow> string list option \<Rightarrow> nat \<Rightarrow> stream_state \<Rightarrow> string list \<Rightarrow> stream_state outcome"
where
  "process_chunks openAiPayload functionNames chunkIndex st [] = Continue st"
| "process_chunks openAiPayload functionNames chunkIndex st (bytes # rest) =
     (case process_chunk openAiPayload functionNames chunkIndex st bytes of
        Continue st' \<Rightarrow> process_chunks openAiPayload functionNames (Suc chunkIndex) st' rest
      | Return message \<Rightarrow> Return message
      | Throw error \<Rightarrow> Throw error)"

section \<open>Message sequence normalizer (jigAnthropicMessages)\<close>

text \<open>
  The synthetic message \<^verbatim>\<open>{ role: "user", content: "..." }\<close> that the normalizer puts in
  front of a list that does not start with a user turn, and behind one that ends with an
  assistant turn.
\<close>

definition placeholder_message :: anthropic_message where
  "placeholder_message = \<lparr>a_role = User, a_content = AStr ''...''\<rparr>"

text \<open>
  \<^verbatim>\<open>Array.isArray(c) ? c : [{ type: "text", text: c }]\<close>
\<close>

fun content_blocks :: "anthropic_content \<Rightarrow> anthropic_content_block list" where
  "content_blocks (ABlocks bs) = bs"
| "content_blocks (AStr s) = [AText s]"

text \<open>
  The separator block placed between the contents of two merged messages:
  the text is newline, newline, three dashes, newline, newline.
\<close>

definition merge_separator :: anthropic_content_block where
  "merge_separator = AText ([CHR 0x0A, CHR 0x0A] @ ''---'' @ [CHR 0x0A, CHR 0x0A])"

text \<open>
  The callback of the \<^verbatim>\<open>reduce\<close>. The first message is kept as it is; a message with
  the role of the last accumulated one is merged into it (the contents of both as block
  lists, with the separator between them); any other message is appended, its string
  content converted to a one-element block list. The source writes the merged content
  into the last accumulated message object; the model returns the accumulated list with
  that message replaced.
\<close>

definition jig_reduce :: "anthropic_message list \<Rightarrow> anthropic_message \<Rightarrow> anthropic_message list" where
  "jig_reduce acc message =
     (if acc = [] then [message]
      else
        let lastMessage = last acc in
        if a_role lastMessage = a_role message then
          butlast acc @
            [lastMessage\<lparr>a_content :=
               ABlocks (content_blocks (a_content lastMessage) @ [merge_separator] @
                        content_blocks (a_content message))\<rparr>]
        else
          acc @ [message\<lparr>a_content := ABlocks (content_blocks (a_content message))\<rparr>])"

text \<open>
  \<^verbatim>\<open>jiggedMessages[0]?.role !== "user"\<close>: true for the empty list as well, where the
  optional chain gives \<^verbatim>\<open>undefined\<close>.
\<close>

fun first_not_user :: "anthropic_message list \<Rightarrow> bool" where
  "first_not_user [] = True"
| "first_not_user (m # ms) = (a_role m \<noteq> User)"

text \<open>
  \<^verbatim>\<open>jiggedMessages[jiggedMessages.length - 1]?.role === "assistant"\<close>
\<close>

definition last_is_assistant :: "anthropic_message list \<Rightarrow> bool" where
  "last_is_assistant ms = (ms \<noteq> [] \<and> a_role (last ms) = Assistant)"

definition jigAnthropicMessages :: "anthropic_message list \<Rightarrow> anthropic_message list" where
  "jigAnthropicMessages messages =
     (let jiggedMessages =
            (if first_not_user messages then placeholder_message # messages else messages);
          jiggedMessages = foldl jig_reduce [] jiggedMessages
      in if last_is_assistant jiggedMessages
         then jiggedMessages @ [placeholder_message]
         else jiggedMessages)"

section \<open>Retry and fallback controller (callOpenAiWithRetries)\<close>

text \<open>\<^verbatim>\<open>error.data?.code\<close>\<close>

definition error_code :: "js_error \<Rightarrow> json option" where
  "error_code error = opt_chain (er_data error) ''code''"

text \<open>
  \<^verbatim>\<open>if (Array.isArray(message.content)) message.content = message.content.filter((content)
  => content.type === "text")\<close>
\<close>

fun is_text_block :: "openai_content_block \<Rightarrow> bool" where
  "is_text_block (OText t) = True"
| "is_text_block (OImageUrl u) = False"
| "is_text_block (OAudioUrl u) = False"

fun keep_text_blocks :: "openai_message \<Rightarrow> openai_message" where
  "keep_text_blocks message =
     (case o_content message of
        OBlocks blocks \<Rightarrow> message\<lparr>o_content := OBlocks (filter is_text_block blocks)\<rparr>
      | OStr s \<Rightarrow> message)"

text \<open>\<^verbatim>\<open>openAiConfig?.service === "azure"\<close> and \<^verbatim>\<open>openAiConfig.service = "openai"\<close>\<close>

fun service_is_azure :: "openai_config option \<Rightarrow> bool" where
  "service_is_azure None = False"
| "service_is_azure (Some c) = (oc_service c = Azure)"

definition switch_to_openai :: "openai_config option \<Rightarrow> openai_config option" where
  "switch_to_openai c = map_option (\<lambda>c. c\<lparr>oc_service := OpenAI\<rparr>) c"

text \<open>
  The \<^verbatim>\<open>catch\<close> block of the retry loop, lines 116 to 195, at loop index \<open>i\<close>: the
  assignments to the payload and the configuration, in the order of the source (console
  output and the 250 ms pause are left out).
\<close>

definition remediate ::
  "nat \<Rightarrow> js_error \<Rightarrow> openai_payload \<times> openai_config option \<Rightarrow> openai_payload \<times> openai_config option"
where
  "remediate i error pc =
     (let openAiPayload = fst pc;
          openAiConfig = snd pc;
          errorCode = error_code error;
          openAiPayload = openAiPayload\<lparr>op_model := GPTModel_GPT4_0409\<rparr>;
          openAiPayload = openAiPayload\<lparr>op_temperature := Some 0.8\<rparr>;
          openAiPayload =
            (if errorCode = Some (JStr ''content_policy_violation'')
             then openAiPayload\<lparr>op_messages := map keep_text_blocks (op_messages openAiPayload)\<rparr>
             else openAiPayload);
          openAiConfig =
            (if 2 \<le> i \<and> service_is_azure openAiConfig \<and> errorCode = Some (JStr ''content_filter'')
             then switch_to_openai openAiConfig
             else openAiConfig);
          openAiConfig =
            (if i = 3 then
               (if service_is_azure openAiConfig then switch_to_openai openAiConfig
                else openAiConfig)
             else openAiConfig);
          openAiPayload =
            (if i = 4 then
               (if op_tools openAiPayload \<noteq> None
                then openAiPayload\<lparr>op_tool_choice := Some ToolChoiceNone\<rparr>
                else openAiPayload)
             else openAiPayload)
      in (openAiPayload, openAiConfig))"

text \<open>
  What a call with retries leaves behind: what it returned or threw, the payload and the
  configuration as the last attempt's remediation left them (the source mutates the
  caller's objects), and the payload and configuration each attempt was made with, in
  order.
\<close>

record openai_retry_result =
  rr_outcome :: "js_error + parsed_response_message"
  rr_payload :: openai_payload
  rr_config :: "openai_config option"
  rr_calls :: "(openai_payload \<times> openai_config option) list"

definition exhausted_message :: "string \<Rightarrow> int \<Rightarrow> string" where
  "exhausted_message identifier retries =
     identifier @ '': Failed to call OpenAI API after '' @ show_int retries @
     '' attempts. Please lookup OpenAI status for active issues.''"

text \<open>
  \<^verbatim>\<open>for (let i = 0; i <= retries; i++)\<close> from index \<open>i\<close> on. The transport \<open>fetch i\<close> answers
  the request of attempt \<open>i\<close>.
\<close>

function retry_loop ::
  "(nat \<Rightarrow> openai_payload \<Rightarrow> openai_config \<Rightarrow> fetch_result) \<Rightarrow> string \<Rightarrow> int \<Rightarrow> nat \<Rightarrow>
     openai_payload \<Rightarrow> openai_config option \<Rightarrow> openai_retry_result"
where
  "retry_loop fetch identifier retries i openAiPayload openAiConfig =
     (if int i \<le> retries then
        (case callOpenAIStream (fetch i) openAiPayload openAiConfig of
           Inr res \<Rightarrow>
             \<lparr>rr_outcome = Inr res, rr_payload = openAiPayload, rr_config = openAiConfig,
              rr_calls = [(openAiPayload, openAiConfig)]\<rparr>
         | Inl error \<Rightarrow>
             (let pc = remediate i error (openAiPayload, openAiConfig);
                  r = retry_loop fetch identifier retries (Suc i) (fst pc) (snd pc)
              in r\<lparr>rr_calls := (openAiPayload, openAiConfig) # rr_calls r\<rparr>))
      else
        \<lparr>rr_outcome = Inl (new_Error (exhausted_message identifier retries)),
         rr_payload = openAiPayload, rr_config = openAiConfig, rr_calls = []\<rparr>)"
  by pat_completeness auto
termination
  by (relation "measure (\<lambda>(fetch, identifier, retries, i, p, c). nat (retries + 1 - int i))") auto

text \<open>
  \<^verbatim>\<open>callOpenAiWithRetries(identifier, openAiPayload, openAiConfig, retries = 5,
  chunkTimeoutMs)\<close>; \<open>None\<close> for \<open>retries\<close> is the default. The per-chunk timeout shows
  in the transport only (a read that is rejected).
\<close>

definition callOpenAiWithRetries ::
  "(nat \<Rightarrow> openai_payload \<Rightarrow> openai_config \<Rightarrow> fetch_result) \<Rightarrow> string \<Rightarrow> openai_payload \<Rightarrow>
     openai_config option \<Rightarrow> int option \<Rightarrow> openai_retry_result"
where
  "callOpenAiWithRetries fetch identifier openAiPayload openAiConfig retries =
     retry_loop fetch identifier (case retries of None \<Rightarrow> 5 | Some n \<Rightarrow> n) 0
       openAiPayload openAiConfig"

subsection \<open>The remediation table of the specification\<close>

text \<open>
  Section 4.4 of the specification, as a function of the loop index, the error code of
  the failure and the payload and configuration before it: the model is the fallback
  model and the temperature 0.8 after every failure; the messages lose their non-text
  blocks on \<^verbatim>\<open>content_policy_violation\<close>; an Azure service becomes the direct service at
  index 2 or later on \<^verbatim>\<open>content_filter\<close>, and at index 3 on any failure; the tool choice
  becomes \<^verbatim>\<open>"none"\<close> at index 4 when a tool schema is present.
\<close>

definition table_remediation ::
  "nat \<Rightarrow> json option \<Rightarrow> openai_payload \<times> openai_config option \<Rightarrow> openai_payload \<times> openai_config option"
where
  "table_remediation i code pc =
     (\<lparr>op_model = GPTModel_GPT4_0409,
       op_messages =
         (if code = Some (JStr ''content_policy_violation'')
          then map keep_text_blocks (op_messages (fst pc))
          else op_messages (fst pc)),
       op_tools = op_tools (fst pc),
       op_tool_choice =
         (if i = 4 \<and> op_tools (fst pc) \<noteq> None then Some ToolChoiceNone
          else op_tool_choice (fst pc)),
       op_temperature = Some 0.8\<rparr>,
      if service_is_azure (snd pc) \<and> (2 \<le> i \<and> code = Some (JStr ''content_filter'') \<or> i = 3)
      then switch_to_openai (snd pc)
      else snd pc)"

text \<open>
  The attempts of a run by the table: at most \<open>n\<close> attempts from index \<open>i\<close> on, each made
  with the payload and configuration the failures before it left, the run ending with the
  first attempt that succeeds.
\<close>

fun table_run ::
  "(nat \<Rightarrow> openai_payload \<Rightarrow> openai_config \<Rightarrow> fetch_result) \<Rightarrow> nat \<Rightarrow> nat \<Rightarrow>
     openai_payload \<times> openai_config option \<Rightarrow> (openai_payload \<times> openai_config option) list"
where
  "table_run fetch 0 i pc = []"
| "table_run fetch (Suc n) i pc =
     pc #
     (case callOpenAIStream (fetch i) (fst pc) (snd pc) of
        Inr res \<Rightarrow> []
      | Inl error \<Rightarrow> table_run fetch n (Suc i) (table_remediation i (error_code error) pc))"

section \<open>Anthropic path (callAnthropic, callAnthropicWithRetries)\<close>

text \<open>
  Property access that throws a \<^verbatim>\<open>TypeError\<close> on \<^verbatim>\<open>null\<close> and \<^verbatim>\<open>undefined\<close>
  (\<^verbatim>\<open>v.k\<close> without optional chaining).
\<close>

fun js_get :: "json option \<Rightarrow> string \<Rightarrow> js_error + json option" where
  "js_get None k = Inl TypeError"
| "js_get (Some JNull) k = Inl TypeError"
| "js_get (Some v) k = Inr (js_prop v k)"

text \<open>The rest of a string after the first occurrence of a pattern.\<close>

fun find_after :: "string \<Rightarrow> string \<Rightarrow> string option" where
  "find_after pat [] = (if pat = [] then Some [] else None)"
| "find_after pat (c # cs) =
     (if prefix pat (c # cs) then Some (drop (length pat) (c # cs)) else find_after pat cs)"

lemma find_after_length: "find_after pat s = Some r \<Longrightarrow> length r \<le> length s"
  by (induction s) (auto split: if_splits)

text \<open>
  \<^verbatim>\<open>s.replace(/<thinking>.*?<\/thinking>/gs, "")\<close>: every opening tag that has a
  closing tag after it is removed together with the text up to the first such closing
  tag.
\<close>

function remove_thinking :: "string \<Rightarrow> string" where
  "remove_thinking s =
     (if s = [] then []
      else
        (case (if prefix ''<thinking>'' s then find_after ''</thinking>'' (drop 10 s) else None) of
           Some rest \<Rightarrow> remove_thinking rest
         | None \<Rightarrow> hd s # remove_thinking (tl s)))"
  by pat_completeness auto
termination
proof (relation "measure length")
  show "wf (measure length)" by simp
next
  fix s :: string and rest
  assume "s \<noteq> []"
    and "(if prefix ''<thinking>'' s then find_after ''</thinking>'' (drop 10 s) else None) = Some rest"
  then have "prefix ''<thinking>'' s" and "find_after ''</thinking>'' (drop 10 s) = Some rest"
    by (auto split: if_splits)
  then have "length rest \<le> length (drop 10 s)" and "10 \<le> length s"
    by (auto dest: find_after_length simp: prefix_def)
  then show "(rest, s) \<in> measure length" by simp
next
  fix s :: string
  assume "s \<noteq> []"
  then show "(tl s, s) \<in> measure length" by simp
qed

text \<open>
  \<^verbatim>\<open>s.replace(/t1|t2|.../gs, "")\<close> for literal tags: every occurrence of a tag is removed.
\<close>

function remove_all :: "string list \<Rightarrow> string \<Rightarrow> string" where
  "remove_all tags s =
     (if s = [] then []
      else
        (case find (\<lambda>t. t \<noteq> [] \<and> prefix t s) tags of
           Some t \<Rightarrow> remove_all tags (drop (length t) s)
         | None \<Rightarrow> hd s # remove_all tags (tl s)))"
  by pat_completeness auto
termination
  by (relation "measure (\<lambda>(tags, s). length s)") (auto simp: find_Some_iff prefix_def)

text \<open>
  The loop over the answers of the response, lines 554 to 588, with the text and the
  function calls collected so far.
\<close>

definition answer_text :: "string \<Rightarrow> string" where
  "answer_text t =
     (let text = js_trim (remove_all [''<answer>'', ''</answer>''] (remove_thinking t))
      in if text = []
         then remove_all [''<thinking>'', ''</thinking>'', ''<answer>'', ''</answer>''] t
         else text)"

fun collect_answers ::
  "json list \<Rightarrow> string \<Rightarrow> function_call list \<Rightarrow> js_error + (string \<times> function_call list)"
where
  "collect_answers [] textResponse functionCalls = Inr (textResponse, functionCalls)"
| "collect_answers (answer # rest) textResponse functionCalls =
     (if answer = JNull then Inl TypeError
      else if \<not> truthy_opt (js_prop answer ''type'') then
        Inl (new_Error ''Missing answer type in Anthropic API'')
      else if js_prop answer ''type'' = Some (JStr ''text'') then
        (case js_prop answer ''text'' of
           Some (JStr t) \<Rightarrow>
             collect_answers rest
               (if textResponse \<noteq> [] then textResponse @ [LF, LF] @ answer_text t
                else answer_text t)
               functionCalls
         | _ \<Rightarrow> Inl TypeError)
      else if js_prop answer ''type'' = Some (JStr ''tool_use'') then
        collect_answers rest textResponse
          (functionCalls @
           [\<lparr>fc_name = js_prop answer ''name'', fc_arguments = js_prop answer ''input''\<rparr>])
      else collect_answers rest textResponse functionCalls)"

text \<open>
  Lines 545 to 603: from the response data to the parsed message. \<^verbatim>\<open>for (const answer
  of answers)\<close> runs over the elements of an array; a string has characters, which have
  no type; any other value with a truthy element 0 is not iterable.
\<close>

definition parse_anthropic_data :: "json \<Rightarrow> js_error + parsed_response_message" where
  "parse_anthropic_data data =
     (case js_get (Some data) ''content'' of
        Inl e \<Rightarrow> Inl e
      | Inr answers \<Rightarrow>
          (case js_get answers ''0'' of
             Inl e \<Rightarrow> Inl e
           | Inr first \<Rightarrow>
               if \<not> truthy_opt first then Inl (new_Error ''Missing answer in Anthropic API'')
               else
                 (case (case answers of
                          Some (JArr xs) \<Rightarrow> collect_answers xs [] []
                        | Some (JStr s) \<Rightarrow> Inl (new_Error ''Missing answer type in Anthropic API'')
                        | _ \<Rightarrow> Inl TypeError) of
                    Inl e \<Rightarrow> Inl e
                  | Inr (textResponse, functionCalls) \<Rightarrow>
                      if textResponse = [] \<and> functionCalls = [] then
                        Inl (new_Error ''Missing text & fns in Anthropic API response'')
                      else
                        Inr \<lparr>p_role = Assistant,
                             p_content = Some (JStr textResponse),
                             p_function_call =
                               (case functionCalls of [] \<Rightarrow> None | call # _ \<Rightarrow> Some call)\<rparr>)))"

text \<open>
  The request either service is sent, and the transport: the HTTP client gives the parsed
  response data, the Bedrock client the bytes of the response body; either may throw.
\<close>

record anthropic_request =
  rq_model :: string
  rq_messages :: "anthropic_message list"
  rq_tools :: "function_definition list option"
  rq_temperature :: "real option"
  rq_system :: "string option"

record anthropic_transport =
  axios_post :: "anthropic_request \<Rightarrow> js_error + json"
  bedrock_send :: "anthropic_request \<Rightarrow> js_error + string"

definition callAnthropic ::
  "anthropic_transport \<Rightarrow> anthropic_payload \<Rightarrow> anthropic_service option \<Rightarrow>
     js_error + parsed_response_message"
where
  "callAnthropic transport AiPayload AiConfig =
     (let anthropicMessages = jigAnthropicMessages (ap_messages AiPayload);
          data =
            (if AiConfig = Some Bedrock then
               (case bedrock_send transport
                       \<lparr>rq_model = ''anthropic.claude-3-haiku-20240307-v1:0'',
                        rq_messages = anthropicMessages, rq_tools = ap_functions AiPayload,
                        rq_temperature = None, rq_system = None\<rparr> of
                  Inl e \<Rightarrow> Inl e
                | Inr body \<Rightarrow>
                    (case JSON_parse (TextDecoder_decode body) of
                       None \<Rightarrow> Inl SyntaxError
                     | Some d \<Rightarrow> Inr d))
             else
               axios_post transport
                 \<lparr>rq_model = ap_model AiPayload, rq_messages = anthropicMessages,
                  rq_tools = ap_functions AiPayload, rq_temperature = ap_temperature AiPayload,
                  rq_system = ap_system AiPayload\<rparr>)
      in case data of
           Inl e \<Rightarrow> Inl e
         | Inr d \<Rightarrow> parse_anthropic_data d)"

text \<open>\<^verbatim>\<open>e.response?.data?.error?.type === "rate_limit_error"\<close>\<close>

definition is_rate_limit_error :: "js_error \<Rightarrow> bool" where
  "is_rate_limit_error e =
     (opt_chain (opt_chain (er_response_data e) ''error'') ''type'' = Some (JStr ''rate_limit_error''))"

record anthropic_retry_result =
  ar_outcome :: "js_error + parsed_response_message"
  ar_payload :: anthropic_payload
  ar_calls :: "anthropic_payload list"

text \<open>
  \<^verbatim>\<open>for (let i = 0; i < attempts; i++)\<close> of callAnthropicWithRetries from index \<open>i\<close> on.
  \<^verbatim>\<open>lastResponse\<close> is assigned only right before the function returns, so the aggregate
  error carries \<^verbatim>\<open>undefined\<close> as its response.
\<close>

function anthropic_retry_loop ::
  "(nat \<Rightarrow> anthropic_transport) \<Rightarrow> anthropic_service option \<Rightarrow> int \<Rightarrow> nat \<Rightarrow> anthropic_payload \<Rightarrow>
     anthropic_retry_result"
where
  "anthropic_retry_loop transport AiConfig attempts i AiPayload =
     (if int i < attempts then
        (let AiPayload =
               (if int i = attempts - 1 then AiPayload\<lparr>ap_model := ClaudeModel_SONNET\<rparr>
                else AiPayload)
         in case callAnthropic (transport i) AiPayload AiConfig of
              Inr lastResponse \<Rightarrow>
                \<lparr>ar_outcome = Inr lastResponse, ar_payload = AiPayload, ar_calls = [AiPayload]\<rparr>
            | Inl e \<Rightarrow>
                (let next_payload =
                       (if is_rate_limit_error e then AiPayload\<lparr>ap_model := ClaudeModel_SONNET\<rparr>
                        else AiPayload);
                     r = anthropic_retry_loop transport AiConfig attempts (Suc i) next_payload
                 in r\<lparr>ar_calls := AiPayload # ar_calls r\<rparr>))
      else
        \<lparr>ar_outcome =
           Inl ((new_Error (''Failed to call Anthropic API after '' @ show_int attempts @
                            '' attempts''))\<lparr>er_response := None\<rparr>),
         ar_payload = AiPayload, ar_calls = []\<rparr>)"
  by pat_completeness auto
termination
  by (relation "measure (\<lambda>(t, c, attempts, i, p). nat (attempts - int i))") auto

definition callAnthropicWithRetries ::
  "(nat \<Rightarrow> anthropic_transport) \<Rightarrow> anthropic_payload \<Rightarrow> anthropic_service option \<Rightarrow> int option \<Rightarrow>
     anthropic_retry_result"
where
  "callAnthropicWithRetries transport AiPayload AiConfig attempts =
     anthropic_retry_loop transport AiConfig (case attempts of None \<Rightarrow> 5 | Some n \<Rightarrow> n) 0 AiPayload"

section \<open>Groq path (callGroq, callGroqWithRetries)\<close>

record groq_payload =
  gq_model :: string
  gq_messages :: "openai_message list"
  gq_tools :: "function_wrapped list option"
  gq_tool_choice :: "tool_choice option"
  gq_temperature :: "real option"

text \<open>
  \<^verbatim>\<open>JSON.parse(v)\<close> for a value that need not be a string: the argument is converted to a
  string first (\<^verbatim>\<open>undefined\<close> to the text \<^verbatim>\<open>undefined\<close>, which does not parse).
\<close>

fun JSON_parse_value :: "json option \<Rightarrow> json option" where
  "JSON_parse_value None = JSON_parse ''undefined''"
| "JSON_parse_value (Some v) = JSON_parse (js_to_string v)"

text \<open>
  Lines 1047 to 1069: from the response data to the parsed message. The source makes no
  check that the text or the function call is present.
\<close>

definition parse_groq_data :: "json \<Rightarrow> js_error + parsed_response_message" where
  "parse_groq_data data =
     (case js_get (Some data) ''choices'' of
        Inl e \<Rightarrow> Inl e
      | Inr choices \<Rightarrow>
          (case js_get choices ''0'' of
             Inl e \<Rightarrow> Inl e
           | Inr choice \<Rightarrow>
               (case js_get choice ''message'' of
                  Inl e \<Rightarrow> Inl e
                | Inr answer \<Rightarrow>
                    if \<not> truthy_opt answer then Inl (new_Error ''Missing answer in Groq API'')
                    else
                      (let textResponse = js_or (opt_chain answer ''content'') None;
                           tool_calls = opt_chain answer ''tool_calls''
                       in if truthy_opt tool_calls \<and> truthy_opt (opt_chain tool_calls ''length'')
                          then
                            (case js_get (opt_chain tool_calls ''0'') ''function'' of
                               Inl e \<Rightarrow> Inl e
                             | Inr fn \<Rightarrow>
                                 (case js_get fn ''name'' of
                                    Inl e \<Rightarrow> Inl e
                                  | Inr name \<Rightarrow>
                                      (case JSON_parse_value (opt_chain fn ''arguments'') of
                                         None \<Rightarrow> Inl SyntaxError
                                       | Some args \<Rightarrow>
                                           Inr \<lparr>p_role = Assistant, p_content = textResponse,
                                                p_function_call =
                                                  Some \<lparr>fc_name = name,
                                                        fc_arguments = Some args\<rparr>\<rparr>)))
                          else
                            Inr \<lparr>p_role = Assistant, p_content = textResponse,
                                 p_function_call = None\<rparr>))))"

text \<open>\<^verbatim>\<open>callGroq(identifier, payload)\<close>; the transport answers the POST with data or throws.\<close>

definition callGroq ::
  "(groq_payload \<Rightarrow> js_error + json) \<Rightarrow> groq_payload \<Rightarrow> js_error + parsed_response_message"
where
  "callGroq post payload =
     (case post payload of
        Inl e \<Rightarrow> Inl e
      | Inr data \<Rightarrow> parse_groq_data data)"

record groq_retry_result =
  gr_outcome :: "js_error + parsed_response_message"
  gr_calls :: nat

text \<open>
  \<^verbatim>\<open>for (let i = 0; i < retries; i++)\<close> of callGroqWithRetries from index \<open>i\<close> on; the
  payload is never changed, so the result counts the calls only.
\<close>

function groq_retry_loop ::
  "(nat \<Rightarrow> groq_payload \<Rightarrow> js_error + json) \<Rightarrow> groq_payload \<Rightarrow> int \<Rightarrow> nat \<Rightarrow> groq_retry_result"
where
  "groq_retry_loop post payload retries i =
     (if int i < retries then
        (case callGroq (post i) payload of
           Inr lastResponse \<Rightarrow> \<lparr>gr_outcome = Inr lastResponse, gr_calls = 1\<rparr>
         | Inl e \<Rightarrow>
             (let r = groq_retry_loop post payload retries (Suc i)
              in r\<lparr>gr_calls := Suc (gr_calls r)\<rparr>))
      else
        \<lparr>gr_outcome =
           Inl ((new_Error (''Failed to call Groq API after '' @ show_int retries @
                            '' attempts''))\<lparr>er_response := None\<rparr>),
         gr_calls = 0\<rparr>)"
  by pat_completeness auto
termination
  by (relation "measure (\<lambda>(post, p, retries, i). nat (retries - int i))") auto

definition callGroqWithRetries ::
  "(nat \<Rightarrow> groq_payload \<Rightarrow> js_error + json) \<Rightarrow> groq_payload \<Rightarrow> int option \<Rightarrow> groq_retry_result"
where
  "callGroqWithRetries post payload retries =
     groq_retry_loop post payload (case retries of None \<Rightarrow> 5 | Some n \<Rightarrow> n) 0"

section \<open>Google path (callGoogleAI)\<close>

datatype google_part = GText string | GInlineData string string

datatype google_role = GUser | GModel

record google_message =
  gm_role :: google_role
  gm_parts :: "google_part list"

record google_payload =
  gg_model :: string
  gg_messages :: "google_message list"
  gg_tools :: "function_definition list option"
  gg_systemInstruction :: "string option"

text \<open>
  What the SDK's response object gives: \<^verbatim>\<open>response.text()\<close>, a string or \<^verbatim>\<open>undefined\<close>,
  and \<^verbatim>\<open>response.functionCalls()\<close>, an array of names with arguments or \<^verbatim>\<open>undefined\<close>.
\<close>

record google_response =
  gres_text :: "string option"
  gres_functionCalls :: "(string \<times> json) list option"

text \<open>
  \<^verbatim>\<open>callGoogleAI(identifier, payload)\<close>. The SDK call (start a chat with all messages but
  the last as history, send the parts of the last one) is the transport; it may throw.
  With no message at all, \<^verbatim>\<open>lastMessage.parts\<close> throws. The source makes no check that
  the text or a function call is present.
\<close>

definition callGoogleAI ::
  "(google_payload \<Rightarrow> js_error + google_response) \<Rightarrow> google_payload \<Rightarrow>
     js_error + parsed_response_message"
where
  "callGoogleAI sendMessage payload =
     (if gg_messages payload = [] then Inl TypeError
      else
        (case sendMessage payload of
           Inl e \<Rightarrow> Inl e
         | Inr response \<Rightarrow>
             (let parsedFunctionCalls =
                    map_option
                      (map (\<lambda>fc. \<lparr>fc_name = Some (JStr (fst fc)), fc_arguments = Some (snd fc)\<rparr>))
                      (gres_functionCalls response)
              in Inr \<lparr>p_role = Assistant,
                      p_content =
                        (case gres_text response of
                           None \<Rightarrow> None
                         | Some t \<Rightarrow> if t = [] then None else Some (JStr t)),
                      p_function_call =
                        (case parsedFunctionCalls of
                           None \<Rightarrow> None
                         | Some [] \<Rightarrow> None
                         | Some (call # _) \<Rightarrow> Some call)\<rparr>)))"

section \<open>Payload translation and dispatch (prepare*Payload, callWithRetries)\<close>

text \<open>\<^verbatim>\<open>Object.values(E).includes(payload.model)\<close> for the four enumerations.\<close>

definition isAnthropicPayload :: "generic_payload \<Rightarrow> bool" where
  "isAnthropicPayload payload = (gp_model payload \<in> set ClaudeModel)"

definition isOpenAiPayload :: "generic_payload \<Rightarrow> bool" where
  "isOpenAiPayload payload = (gp_model payload \<in> set GPTModel)"

definition isGroqPayload :: "generic_payload \<Rightarrow> bool" where
  "isGroqPayload payload = (gp_model payload \<in> set GroqModel)"

definition isGoogleAIPayload :: "generic_payload \<Rightarrow> bool" where
  "isGoogleAIPayload payload = (gp_model payload \<in> set GeminiModel)"

text \<open>The files of a message (\<^verbatim>\<open>message.files || []\<close>) and the tests on a file.\<close>

definition files_of :: "generic_message \<Rightarrow> file_attachment list" where
  "files_of message = (case g_files message of None \<Rightarrow> [] | Some fs \<Rightarrow> fs)"

definition is_image :: "file_attachment \<Rightarrow> bool" where
  "is_image f = prefix ''image'' (f_mimeType f)"

fun truthy_string :: "string option \<Rightarrow> string option" where
  "truthy_string None = None"
| "truthy_string (Some s) = (if s = [] then None else Some s)"

definition supported_mime :: "string \<Rightarrow> bool" where
  "supported_mime m = (m \<in> set [''image/png'', ''image/jpeg'', ''image/gif'', ''image/webp''])"

definition invalid_mime_error :: js_error where
  "invalid_mime_error =
     new_Error (''Invalid image mimeType. Supported types are: '' @
                ''image/png, image/jpeg, image/gif, image/webp'')"

text \<open>\<^verbatim>\<open>function_call\<close> of the generic payload as the \<^verbatim>\<open>tool_choice\<close> of OpenAI and Groq.\<close>

fun directive_tool_choice :: "function_call_directive \<Rightarrow> tool_choice" where
  "directive_tool_choice DirectiveNone = ToolChoiceNone"
| "directive_tool_choice DirectiveAuto = ToolChoiceAuto"
| "directive_tool_choice (DirectiveName n) = ToolChoiceFunction n"

subsection \<open>prepareOpenAIPayload\<close>

fun openai_file_blocks :: "file_attachment list \<Rightarrow> openai_content_block list" where
  "openai_file_blocks [] = []"
| "openai_file_blocks (f # fs) =
     (if is_image f then
        (case truthy_string (f_url f) of
           Some url \<Rightarrow> OImageUrl url # openai_file_blocks fs
         | None \<Rightarrow>
             (case truthy_string (f_data f) of
                Some d \<Rightarrow>
                  OImageUrl (''data:'' @ f_mimeType f @ '';base64,'' @ d) # openai_file_blocks fs
              | None \<Rightarrow> openai_file_blocks fs))
      else openai_file_blocks fs)"

definition prepareOpenAIPayload :: "generic_payload \<Rightarrow> openai_payload" where
  "prepareOpenAIPayload payload =
     \<lparr>op_model = gp_model payload,
      op_messages =
        map (\<lambda>message.
               \<lparr>o_role = g_role message,
                o_content =
                  OBlocks ((if g_content message \<noteq> [] then [OText (g_content message)] else []) @
                           openai_file_blocks (files_of message))\<rparr>)
            (gp_messages payload),
      op_tools = map_option (map FunctionWrapped) (gp_functions payload),
      op_tool_choice = map_option directive_tool_choice (gp_function_call payload),
      op_temperature = gp_temperature payload\<rparr>"

subsection \<open>prepareGroqPayload\<close>

definition prepareGroqPayload :: "generic_payload \<Rightarrow> groq_payload" where
  "prepareGroqPayload payload =
     \<lparr>gq_model = gp_model payload,
      gq_messages =
        map (\<lambda>message. \<lparr>o_role = g_role message, o_content = OStr (g_content message)\<rparr>)
            (gp_messages payload),
      gq_tools = map_option (map FunctionWrapped) (gp_functions payload),
      gq_tool_choice = map_option directive_tool_choice (gp_function_call payload),
      gq_temperature = gp_temperature payload\<rparr>"

subsection \<open>prepareAnthropicPayload\<close>

text \<open>
  The image normalizerr \<^verbatim>\<open>getNormalizedBase64PNG(url, mime)\<close> is an external collaborator:
  it is a parameter, and may throw.
\<close>

fun anthropic_file_blocks ::
  "(string \<Rightarrow> string \<Rightarrow> js_error + string) \<Rightarrow> file_attachment list \<Rightarrow>
     js_error + anthropic_content_block list"
where
  "anthropic_file_blocks normalizer [] = Inr []"
| "anthropic_file_blocks normalizer (f # fs) =
     (if \<not> is_image f then anthropic_file_blocks normalizer fs
      else
        (case truthy_string (f_url f) of
           Some url \<Rightarrow>
             (case normalizer url (f_mimeType f) of
                Inl e \<Rightarrow> Inl e
              | Inr png \<Rightarrow>
                  (case anthropic_file_blocks normalizer fs of
                     Inl e \<Rightarrow> Inl e
                   | Inr bs \<Rightarrow> Inr (AImage ''image/png'' png # bs)))
         | None \<Rightarrow>
             (case truthy_string (f_data f) of
                Some d \<Rightarrow>
                  if \<not> supported_mime (f_mimeType f) then Inl invalid_mime_error
                  else
                    (case anthropic_file_blocks normalizer fs of
                       Inl e \<Rightarrow> Inl e
                     | Inr bs \<Rightarrow> Inr (AImage (f_mimeType f) d # bs))
              | None \<Rightarrow> anthropic_file_blocks normalizer fs)))"

text \<open>
  The loop over the messages, with the prepared payload so far: a system message sets
  \<^verbatim>\<open>system\<close> and adds no message; any other message is added with its blocks.
\<close>

fun prepare_anthropic_messages ::
  "(string \<Rightarrow> string \<Rightarrow> js_error + string) \<Rightarrow> generic_message list \<Rightarrow> anthropic_payload \<Rightarrow>
     js_error + anthropic_payload"
where
  "prepare_anthropic_messages normalizer [] preparedPayload = Inr preparedPayload"
| "prepare_anthropic_messages normalizer (message # rest) preparedPayload =
     (if g_role message = System then
        prepare_anthropic_messages normalizer rest
          (preparedPayload\<lparr>ap_system := Some (g_content message)\<rparr>)
      else
        (case anthropic_file_blocks normalizer (files_of message) of
           Inl e \<Rightarrow> Inl e
         | Inr blocks \<Rightarrow>
             prepare_anthropic_messages normalizer rest
               (preparedPayload\<lparr>ap_messages := ap_messages preparedPayload @
                  [\<lparr>a_role = g_role message,
                    a_content =
                      ABlocks ((if g_content message \<noteq> [] then [AText (g_content message)]
                                else []) @ blocks)\<rparr>]\<rparr>)))"

definition prepareAnthropicPayload ::
  "(string \<Rightarrow> string \<Rightarrow> js_error + string) \<Rightarrow> generic_payload \<Rightarrow> js_error + anthropic_payload"
where
  "prepareAnthropicPayload normalizer payload =
     prepare_anthropic_messages normalizer (gp_messages payload)
       \<lparr>ap_model = gp_model payload, ap_messages = [], ap_functions = gp_functions payload,
        ap_temperature = gp_temperature payload, ap_system = None\<rparr>"

subsection \<open>prepareGoogleAIPayload\<close>

fun google_file_parts ::
  "(string \<Rightarrow> string \<Rightarrow> js_error + string) \<Rightarrow> file_attachment list \<Rightarrow> js_error + google_part list"
where
  "google_file_parts normalizer [] = Inr []"
| "google_file_parts normalizer (f # fs) =
     (if \<not> is_image f then google_file_parts normalizer fs
      else
        (case truthy_string (f_url f) of
           Some url \<Rightarrow>
             (case normalizer url (f_mimeType f) of
                Inl e \<Rightarrow> Inl e
              | Inr png \<Rightarrow>
                  (case google_file_parts normalizer fs of
                     Inl e \<Rightarrow> Inl e
                   | Inr ps \<Rightarrow> Inr (GInlineData ''image/png'' png # ps)))
         | None \<Rightarrow>
             (case truthy_string (f_data f) of
                Some d \<Rightarrow>
                  if \<not> supported_mime (f_mimeType f) then Inl invalid_mime_error
                  else
                    (case google_file_parts normalizer fs of
                       Inl e \<Rightarrow> Inl e
                     | Inr ps \<Rightarrow> Inr (GInlineData (f_mimeType f) d # ps))
              | None \<Rightarrow> google_file_parts normalizer fs)))"

fun prepare_google_messages ::
  "(string \<Rightarrow> string \<Rightarrow> js_error + string) \<Rightarrow> generic_message list \<Rightarrow> google_payload \<Rightarrow>
     js_error + google_payload"
where
  "prepare_google_messages normalizer [] preparedPayload = Inr preparedPayload"
| "prepare_google_messages normalizer (message # rest) preparedPayload =
     (if g_role message = System then
        prepare_google_messages normalizer rest
          (preparedPayload\<lparr>gg_systemInstruction := Some (g_content message)\<rparr>)
      else
        (case google_file_parts normalizer (files_of message) of
           Inl e \<Rightarrow> Inl e
         | Inr parts \<Rightarrow>
             prepare_google_messages normalizer rest
               (preparedPayload\<lparr>gg_messages := gg_messages preparedPayload @
                  [\<lparr>gm_role = (if g_role message = Assistant then GModel else GUser),
                    gm_parts =
                      (if g_content message \<noteq> [] then [GText (g_content message)] else []) @
                      parts\<rparr>]\<rparr>)))"

definition prepareGoogleAIPayload ::
  "(string \<Rightarrow> string \<Rightarrow> js_error + string) \<Rightarrow> generic_payload \<Rightarrow> js_error + google_payload"
where
  "prepareGoogleAIPayload normalizer payload =
     prepare_google_messages normalizer (gp_messages payload)
       \<lparr>gg_model = gp_model payload, gg_messages = [], gg_tools = gp_functions payload,
        gg_systemInstruction = None\<rparr>"

subsection \<open>callWithRetries\<close>

text \<open>
  The optional configuration is an \<^verbatim>\<open>OpenAIConfig\<close> or an \<^verbatim>\<open>AnthropicAIConfig\<close>; each
  path casts it to its own type. Read as the other type, a configuration shows a service
  that is neither \<^verbatim>\<open>"azure"\<close> nor \<^verbatim>\<open>"bedrock"\<close>, which either path treats as its default
  service.
\<close>

datatype ai_config = OpenAIConfig openai_config | AnthropicAIConfig anthropic_service

fun as_anthropic_config :: "ai_config option \<Rightarrow> anthropic_service option" where
  "as_anthropic_config None = None"
| "as_anthropic_config (Some (AnthropicAIConfig s)) = Some s"
| "as_anthropic_config (Some (OpenAIConfig c)) = Some AnthropicService"

fun as_openai_config :: "ai_config option \<Rightarrow> openai_config option" where
  "as_openai_config None = None"
| "as_openai_config (Some (OpenAIConfig c)) = Some c"
| "as_openai_config (Some (AnthropicAIConfig s)) = Some default_config"

text \<open>
  Everything outside the program that a call depends on: the transports of the four
  providers (those of the paths that retry are indexed by the attempt) and the image
  normalizerr.
\<close>

record transports =
  t_openai :: "nat \<Rightarrow> openai_payload \<Rightarrow> openai_config \<Rightarrow> fetch_result"
  t_anthropic :: "nat \<Rightarrow> anthropic_transport"
  t_groq :: "nat \<Rightarrow> groq_payload \<Rightarrow> js_error + json"
  t_google :: "google_payload \<Rightarrow> js_error + google_response"
  t_normalize :: "string \<Rightarrow> string \<Rightarrow> js_error + string"

text \<open>
  \<^verbatim>\<open>callWithRetries(identifier, aiPayload, aiConfig, retries = 5, chunkTimeoutMs)\<close>: what
  the call returns or throws.
\<close>

definition callWithRetries ::
  "transports \<Rightarrow> string \<Rightarrow> generic_payload \<Rightarrow> ai_config option \<Rightarrow> int option \<Rightarrow>
     js_error + parsed_response_message"
where
  "callWithRetries world identifier aiPayload aiConfig retries =
     (if isAnthropicPayload aiPayload then
        (case prepareAnthropicPayload (t_normalize world) aiPayload of
           Inl e \<Rightarrow> Inl e
         | Inr prepared \<Rightarrow>
             ar_outcome
               (callAnthropicWithRetries (t_anthropic world) prepared
                  (as_anthropic_config aiConfig)
                  (Some (case retries of None \<Rightarrow> 5 | Some n \<Rightarrow> n))))
      else if isOpenAiPayload aiPayload then
        rr_outcome
          (callOpenAiWithRetries (t_openai world) identifier (prepareOpenAIPayload aiPayload)
             (as_openai_config aiConfig) (Some (case retries of None \<Rightarrow> 5 | Some n \<Rightarrow> n)))
      else if isGroqPayload aiPayload then
        gr_outcome (callGroqWithRetries (t_groq world) (prepareGroqPayload aiPayload) None)
      else if isGoogleAIPayload aiPayload then
        (case prepareGoogleAIPayload (t_normalize world) aiPayload of
           Inl e \<Rightarrow> Inl e
         | Inr prepared \<Rightarrow> callGoogleAI (t_google world) prepared)
      else Inl (new_Error ''Invalid AI payload: Unknown model type.''))"

section \<open>Example payloads, configurations and transports\<close>

text \<open>Concrete inputs, used to run the model on.\<close>

definition silent_world :: transports where
  "silent_world =
     \<lparr>t_openai = (\<lambda>i p c. FetchRejected (new_Error ''offline'')),
      t_anthropic = (\<lambda>i. \<lparr>axios_post = (\<lambda>r. Inl (new_Error ''offline'')),
                          bedrock_send = (\<lambda>r. Inl (new_Error ''offline''))\<rparr>),
      t_groq = (\<lambda>i p. Inl (new_Error ''offline'')),
      t_google = (\<lambda>p. Inl (new_Error ''offline'')),
      t_normalize = (\<lambda>u m. Inl (new_Error ''offline''))\<rparr>"

definition unknown_model_payload :: generic_payload where
  "unknown_model_payload =
     \<lparr>gp_model = ''gpt-5'',
      gp_messages = [\<lparr>g_role = User, g_content = ''Tell me a joke.'', g_files = None\<rparr>],
      gp_functions = None, gp_function_call = None, gp_temperature = None\<rparr>"



definition plain_payload :: openai_payload where
  "plain_payload =
     \<lparr>op_model = ''gpt-4o'', op_messages = [\<lparr>o_role = User, o_content = OStr ''Tell me a joke.''\<rparr>],
      op_tools = None, op_tool_choice = None, op_temperature = None\<rparr>"



text \<open>A transport that fails every attempt at the network.\<close>

definition offline_fetch :: "nat \<Rightarrow> openai_payload \<Rightarrow> openai_config \<Rightarrow> fetch_result" where
  "offline_fetch i p c = FetchRejected (new_Error ''fetch failed'')"

text \<open>
  An Anthropic transport whose every request is answered with a rate-limit error response.
\<close>

definition rate_limit_error :: js_error where
  "rate_limit_error =
     (new_Error ''Request failed with status code 429'')
       \<lparr>er_response_data :=
          Some (JObj [(''type'', JStr ''error''),
                      (''error'', JObj [(''type'', JStr ''rate_limit_error'')])])\<rparr>"

definition rate_limited_anthropic :: "nat \<Rightarrow> anthropic_transport" where
  "rate_limited_anthropic i =
     \<lparr>axios_post = (\<lambda>r. Inl rate_limit_error), bedrock_send = (\<lambda>r. Inl rate_limit_error)\<rparr>"

definition haiku_payload :: anthropic_payload where
  "haiku_payload =
     \<lparr>ap_model = ''claude-3-haiku-20240307'',
      ap_messages = [\<lparr>a_role = User, a_content = ABlocks [AText ''Tell me a joke.'']\<rparr>],
      ap_functions = None, ap_temperature = None, ap_system = None\<rparr>"

text \<open>
  Transports whose answers hold neither text nor a function call: Groq answers with an
  assistant message of empty content and no tool calls, the Google SDK with empty text
  and no function calls.
\<close>

definition empty_answer_world :: transports where
  "empty_answer_world =
     silent_world
       \<lparr>t_groq :=
          (\<lambda>i p. Inr (JObj [(''choices'',
                               JArr [JObj [(''index'', JNum ''0''),
                                           (''message'',
                                            JObj [(''role'', JStr ''assistant''),
                                                  (''content'', JStr [])]),
                                           (''finish_reason'', JStr ''stop'')]])])),
        t_google := (\<lambda>p. Inr \<lparr>gres_text = Some [], gres_functionCalls = None\<rparr>)\<rparr>"

definition joke_request :: "string \<Rightarrow> generic_payload" where
  "joke_request m =
     \<lparr>gp_model = m,
      gp_messages = [\<lparr>g_role = User, g_content = ''Tell me a joke.'', g_files = None\<rparr>],
      gp_functions = None, gp_function_call = None, gp_temperature = None\<rparr>"

text \<open>Streams of the OpenAI-compatible transport, as the buffers the reader delivers.\<close>

definition record_line :: "string \<Rightarrow> string" where
  "record_line body = ''data: '' @ body @ [LF, LF]"


text \<open>
  A stream whose second record is a text delta that mentions the sentinel; two more
  records and the sentinel record follow.
\<close>

definition mention_stream :: "read_result list" where
  \<open>mention_stream =
     [Value (record_line ''{"choices":[{"delta":{"content":"The stream ends with "}}]}''),
      Value (record_line ''{"choices":[{"delta":{"content":"[DONE]"}}]}''),
      Value (record_line ''{"choices":[{"delta":{"content":" on a line of its own."}}]}''),
      Value (record_line ''[DONE]'')]\<close>

text \<open>
  One record whose text holds a two-byte character (U+00E9, bytes C3 A9), then the
  sentinel: delivered as one buffer, and delivered as two buffers cut between the two
  bytes of the character.
\<close>

definition cafe_whole :: "read_result list" where
  \<open>cafe_whole =
     [Value (''data: {"choices":[{"delta":{"content":"caf'' @ [CHR 0xC3, CHR 0xA9] @ ''"}}]}'' @
             [LF, LF] @ ''data: [DONE]'' @ [LF, LF])]\<close>

definition cafe_split :: "read_result list" where
  \<open>cafe_split =
     [Value (''data: {"choices":[{"delta":{"content":"caf'' @ [CHR 0xC3]),
      Value ([CHR 0xA9] @ ''"}}]}'' @ [LF, LF] @ ''data: [DONE]'' @ [LF, LF])]\<close>


text \<open>
  The scenario of the specification again, as one buffer and as three buffers cut inside
  a record body, inside the record-start marker and inside the sentinel.
\<close>

definition hello_whole :: "read_result list" where
  \<open>hello_whole =
     [Value (''data: {"choices":[{"delta":{"content":"Hel"}}]}'' @ [LF] @
             ''data: {"choices":[{"delta":{"content":"lo"}}]}'' @ [LF] @
             ''data: [DONE]'' @ [LF])]\<close>

definition hello_cut :: "read_result list" where
  \<open>hello_cut =
     [Value ''data: {"choices":[{"del'',
      Value (''ta":{"content":"Hel"}}]}'' @ [LF] @ ''da''),
      Value (''ta: {"choices":[{"delta":{"content":"lo"}}]}'' @ [LF] @ ''data: [DO''),
      Value (''NE]'' @ [LF])]\<close>

section \<open>Properties of the normalizer\<close>

lemma jig_reduce_not_Nil: "jig_reduce acc m \<noteq> []"
  by (simp add: jig_reduce_def Let_def)

lemma jig_reduce_last_role: "a_role (last (jig_reduce acc m)) = a_role m"
  by (simp add: jig_reduce_def Let_def)

lemma jig_reduce_hd_role:
  "acc \<noteq> [] \<Longrightarrow> a_role (hd (jig_reduce acc m)) = a_role (hd acc)"
proof (cases acc rule: rev_cases)
  case Nil
  assume "acc \<noteq> []"
  with Nil show ?thesis by simp
next
  case (snoc ys y)
  then show ?thesis
    by (cases ys) (simp_all add: jig_reduce_def Let_def)
qed

lemma jig_reduce_roles:
  "acc \<noteq> [] \<Longrightarrow>
   map a_role (jig_reduce acc m) =
     (if a_role (last acc) = a_role m then map a_role acc else map a_role acc @ [a_role m])"
proof (cases acc rule: rev_cases)
  case Nil
  assume "acc \<noteq> []"
  with Nil show ?thesis by simp
next
  case (snoc ys y)
  then show ?thesis by (simp add: jig_reduce_def Let_def)
qed

lemma jig_reduce_distinct_adj:
  assumes "distinct_adj (map a_role acc)"
  shows "distinct_adj (map a_role (jig_reduce acc m))"
proof (cases "acc = []")
  case True
  then show ?thesis by (simp add: jig_reduce_def)
next
  case False
  then have "map a_role acc \<noteq> []" by simp
  moreover have "last (map a_role acc) = a_role (last acc)"
    using False by (simp add: last_map)
  ultimately show ?thesis
    using assms False by (simp add: jig_reduce_roles distinct_adj_append_iff)
qed

lemma foldl_jig_reduce_distinct_adj:
  "distinct_adj (map a_role acc) \<Longrightarrow> distinct_adj (map a_role (foldl jig_reduce acc ms))"
  by (induction ms arbitrary: acc) (simp_all add: jig_reduce_distinct_adj)

lemma foldl_jig_reduce_not_Nil:
  "acc \<noteq> [] \<or> ms \<noteq> [] \<Longrightarrow> foldl jig_reduce acc ms \<noteq> []"
  by (induction ms arbitrary: acc) (simp_all add: jig_reduce_not_Nil)

lemma foldl_jig_reduce_hd_role:
  "acc \<noteq> [] \<Longrightarrow> a_role (hd (foldl jig_reduce acc ms)) = a_role (hd acc)"
  by (induction ms arbitrary: acc) (simp_all add: jig_reduce_not_Nil jig_reduce_hd_role)

lemma foldl_jig_reduce_hd_role_Nil:
  "a_role (hd (foldl jig_reduce [] (m # ms))) = a_role m"
  using foldl_jig_reduce_hd_role [of "[m]" ms] by (simp add: jig_reduce_def)

lemma foldl_jig_reduce_role_set:
  "a_role ` set (foldl jig_reduce acc ms) = a_role ` set acc \<union> a_role ` set ms"
proof (induction ms arbitrary: acc)
  case Nil
  then show ?case by simp
next
  case (Cons m ms)
  have "a_role ` set (jig_reduce acc m) = a_role ` set acc \<union> {a_role m}"
  proof (cases "acc = []")
    case True
    then show ?thesis by (simp add: jig_reduce_def)
  next
    case False
    then have in_roles: "a_role (last acc) \<in> a_role ` set acc" by simp
    have "set (map a_role (jig_reduce acc m)) = set (map a_role acc) \<union> {a_role m}"
    proof (cases "a_role (last acc) = a_role m")
      case True
      with in_roles have "a_role m \<in> a_role ` set acc" by simp
      with True False show ?thesis by (auto simp: jig_reduce_roles)
    next
      case neq: False
      with False show ?thesis by (simp add: jig_reduce_roles)
    qed
    then show ?thesis by simp
  qed
  with Cons show ?case by auto
qed


lemma jigAnthropicMessages_reduced:
  "jigAnthropicMessages ms =
     (let r = foldl jig_reduce [] (if first_not_user ms then placeholder_message # ms else ms)
      in if last_is_assistant r then r @ [placeholder_message] else r)"
  by (simp add: jigAnthropicMessages_def Let_def)

lemma jig_input_starts_with_user:
  "\<exists>m rest. (if first_not_user ms then placeholder_message # ms else ms) = m # rest \<and>
     a_role m = User"
  by (cases ms) (simp_all add: placeholder_message_def)




text \<open>
  On the path from callWithRetries the normalizer never sees a system message:
  prepareAnthropicPayload moves the content of each one to the payload's \<open>system\<close> field
  and adds no message for it.
\<close>

lemma prepare_anthropic_messages_roles:
  "prepare_anthropic_messages n ms acc = Inr ap \<Longrightarrow>
     a_role ` set (ap_messages ap) \<subseteq> a_role ` set (ap_messages acc) \<union> (g_role ` set ms - {System})"
proof (induction ms arbitrary: acc)
  case Nil
  then show ?case by auto
next
  case (Cons m ms)
  show ?case
  proof (cases "g_role m = System")
    case True
    with Cons.prems have
      "prepare_anthropic_messages n ms (acc\<lparr>ap_system := Some (g_content m)\<rparr>) = Inr ap"
      by simp
    from Cons.IH [OF this] show ?thesis by auto
  next
    case False
    with Cons.prems obtain blocks where
      "prepare_anthropic_messages n ms
         (acc\<lparr>ap_messages := ap_messages acc @
            [\<lparr>a_role = g_role m,
              a_content = ABlocks ((if g_content m \<noteq> [] then [AText (g_content m)] else []) @ blocks)\<rparr>]\<rparr>)
       = Inr ap"
      by (auto split: sum.splits)
    from Cons.IH [OF this] False show ?thesis by auto
  qed
qed

lemma prepareAnthropicPayload_no_system:
  assumes "prepareAnthropicPayload n payload = Inr ap"
  shows "System \<notin> a_role ` set (ap_messages ap)"
  using prepare_anthropic_messages_roles [OF assms [unfolded prepareAnthropicPayload_def]]
  by auto

lemma prepared_messages_normalized:
  assumes "prepareAnthropicPayload n payload = Inr ap"
  shows "distinct_adj (map a_role (jigAnthropicMessages (ap_messages ap))) \<and>
         a_role (hd (jigAnthropicMessages (ap_messages ap))) = User \<and>
         a_role (last (jigAnthropicMessages (ap_messages ap))) \<noteq> Assistant \<and>
         System \<notin> a_role ` set (jigAnthropicMessages (ap_messages ap))"
proof -
  define inp where
    "inp = (if first_not_user (ap_messages ap) then placeholder_message # ap_messages ap
            else ap_messages ap)"
  define r where "r = foldl jig_reduce [] inp"
  have out: "jigAnthropicMessages (ap_messages ap) =
      (if last_is_assistant r then r @ [placeholder_message] else r)"
    by (simp add: jigAnthropicMessages_reduced inp_def r_def Let_def)
  obtain m rest where inp: "inp = m # rest" and m: "a_role m = User"
    using jig_input_starts_with_user [of "ap_messages ap"] by (auto simp: inp_def)
  have r_ne: "r \<noteq> []"
    unfolding r_def using inp foldl_jig_reduce_not_Nil [of "[]" inp] by simp
  have r_adj: "distinct_adj (map a_role r)"
    unfolding r_def by (rule foldl_jig_reduce_distinct_adj) simp
  have r_hd: "a_role (hd r) = User"
    unfolding r_def inp using foldl_jig_reduce_hd_role_Nil [of m rest] m by simp
  have "a_role ` set r = a_role ` set inp"
    unfolding r_def using foldl_jig_reduce_role_set [of "[]" inp] by simp
  moreover have "System \<notin> a_role ` set inp"
    using prepareAnthropicPayload_no_system [OF assms]
    by (auto simp: inp_def placeholder_message_def)
  ultimately have r_sys: "System \<notin> a_role ` set r" by simp
  have c1: "distinct_adj (map a_role (jigAnthropicMessages (ap_messages ap)))"
  proof (cases "last_is_assistant r")
    case True
    then have "last (map a_role r) = Assistant"
      using r_ne by (simp add: last_is_assistant_def last_map)
    with r_adj r_ne True show ?thesis
      by (simp add: out distinct_adj_append_iff placeholder_message_def)
  next
    case False
    with r_adj show ?thesis by (simp add: out)
  qed
  have c3: "a_role (hd (jigAnthropicMessages (ap_messages ap))) = User"
    using r_ne r_hd by (simp add: out)
  have c4: "a_role (last (jigAnthropicMessages (ap_messages ap))) \<noteq> Assistant"
    using r_ne by (simp add: out last_is_assistant_def placeholder_message_def)
  have c5: "System \<notin> a_role ` set (jigAnthropicMessages (ap_messages ap))"
    using r_sys by (simp add: out placeholder_message_def)
  from c1 c3 c4 c5 show ?thesis by blast
qed

section \<open>Properties of parseStreamedResponse\<close>

lemma parseStreamedResponse_Inr_iff:
  "parseStreamedResponse p n a allowed = Inr r \<longleftrightarrow>
     (if n \<noteq> [] \<and> a \<noteq> [] then
        (case allowed of None \<Rightarrow> True | Some names \<Rightarrow> n \<in> set names) \<and>
        (\<exists>args. JSON_parse a = Some args \<and>
           r = \<lparr>p_role = Assistant,
                p_content = (if p = [] then None else Some (JStr p)),
                p_function_call = Some \<lparr>fc_name = Some (JStr n), fc_arguments = Some args\<rparr>\<rparr>)
      else
        p \<noteq> [] \<and>
        r = \<lparr>p_role = Assistant, p_content = Some (JStr p), p_function_call = None\<rparr>)"
  by (auto simp: parseStreamedResponse_def split: option.splits)

text \<open>
  C9: parseStreamedResponse returns a message with a function call exactly when the
  accumulated name and arguments are both non-empty, the name is in the allow-list (when
  one is supplied) and the arguments parse as JSON. Whenever it returns a message, the
  role is assistant, the content is null (not the empty string) when no text was
  accumulated, and the function call is null when exactly one of name and arguments is
  non-empty.
\<close>

theorem parseStreamedResponse_function_call:
  "((\<exists>r. parseStreamedResponse p n a allowed = Inr r \<and> p_function_call r \<noteq> None) \<longleftrightarrow>
      (n \<noteq> [] \<and> a \<noteq> [] \<and>
       (case allowed of None \<Rightarrow> True | Some names \<Rightarrow> n \<in> set names) \<and>
       JSON_parse a \<noteq> None)) \<and>
   (\<forall>r. parseStreamedResponse p n a allowed = Inr r \<longrightarrow>
      p_role r = Assistant \<and>
      (p = [] \<longrightarrow> p_content r = None) \<and>
      (p \<noteq> [] \<longrightarrow> p_content r = Some (JStr p)) \<and>
      ((n = []) \<noteq> (a = []) \<longrightarrow> p_function_call r = None))"
proof (intro conjI allI impI)
  show "(\<exists>r. parseStreamedResponse p n a allowed = Inr r \<and> p_function_call r \<noteq> None) \<longleftrightarrow>
      (n \<noteq> [] \<and> a \<noteq> [] \<and>
       (case allowed of None \<Rightarrow> True | Some names \<Rightarrow> n \<in> set names) \<and>
       JSON_parse a \<noteq> None)"
    unfolding parseStreamedResponse_Inr_iff by (auto split: if_splits)
next
  fix r
  assume r: "parseStreamedResponse p n a allowed = Inr r"
  then show "p_role r = Assistant"
    unfolding parseStreamedResponse_Inr_iff by (auto split: if_splits)
  {
    assume "p = []"
    with r show "p_content r = None"
      unfolding parseStreamedResponse_Inr_iff by (auto split: if_splits)
  }
  {
    assume "p \<noteq> []"
    with r show "p_content r = Some (JStr p)"
      unfolding parseStreamedResponse_Inr_iff by (auto split: if_splits)
  }
  {
    assume "(n = []) \<noteq> (a = [])"
    with r show "p_function_call r = None"
      unfolding parseStreamedResponse_Inr_iff by (auto split: if_splits)
  }
qed

lemma JSON_parse_example_arguments:
  \<open>JSON_parse ''{"city":"Paris"}'' = Some (JObj [(''city'', JStr ''Paris'')])\<close>
  by code_simp

theorem parseStreamedResponse_function_call_witness:
  \<open>parseStreamedResponse [] ''get_weather'' ''{"city":"Paris"}'' (Some [''get_weather'']) =
     Inr \<lparr>p_role = Assistant, p_content = None,
          p_function_call =
            Some \<lparr>fc_name = Some (JStr ''get_weather''),
                  fc_arguments = Some (JObj [(''city'', JStr ''Paris'')])\<rparr>\<rparr> \<and>
   parseStreamedResponse ''hi'' ''get_weather'' [] None =
     Inr \<lparr>p_role = Assistant, p_content = Some (JStr ''hi''), p_function_call = None\<rparr> \<and>
   (\<exists>e. parseStreamedResponse [] ''get_weather'' [] None = Inl e) \<and>
   (\<exists>e. parseStreamedResponse ''hi'' ''drop_table'' ''{"city":"Paris"}'' (Some [''get_weather'']) = Inl e) \<and>
   (\<exists>e. parseStreamedResponse ''hi'' ''get_weather'' ''{"city":'' None = Inl e)\<close>
proof -
  have bad: \<open>JSON_parse ''{"city":'' = None\<close>
    by code_simp
  have 1: \<open>parseStreamedResponse [] ''get_weather'' ''{"city":"Paris"}'' (Some [''get_weather'']) =
     Inr \<lparr>p_role = Assistant, p_content = None,
          p_function_call =
            Some \<lparr>fc_name = Some (JStr ''get_weather''),
                  fc_arguments = Some (JObj [(''city'', JStr ''Paris'')])\<rparr>\<rparr>\<close>
    by (simp add: parseStreamedResponse_def JSON_parse_example_arguments)
  have 2: \<open>parseStreamedResponse ''hi'' ''get_weather'' [] None =
     Inr \<lparr>p_role = Assistant, p_content = Some (JStr ''hi''), p_function_call = None\<rparr>\<close>
    by (simp add: parseStreamedResponse_def)
  have 3: \<open>\<exists>e. parseStreamedResponse [] ''get_weather'' [] None = Inl e\<close>
    by (simp add: parseStreamedResponse_def)
  have 4: \<open>\<exists>e. parseStreamedResponse ''hi'' ''drop_table'' ''{"city":"Paris"}'' (Some [''get_weather'']) = Inl e\<close>
    by (simp add: parseStreamedResponse_def)
  have 5: \<open>\<exists>e. parseStreamedResponse ''hi'' ''get_weather'' ''{"city":'' None = Inl e\<close>
    by (simp add: parseStreamedResponse_def bad)
  from 1 2 3 4 5 show ?thesis
    using parseStreamedResponse_function_call
      [of "[]" "''get_weather''" \<open>''{"city":"Paris"}''\<close> "Some [''get_weather'']"]
    by blast
qed

section \<open>Properties of the dispatch\<close>

text \<open>
  C10: for a payload whose model is in none of the four model enumerations,
  callWithRetries throws the error "Invalid AI payload: Unknown model type.", whatever the
  transports of the providers would answer: no provider path is entered.
\<close>

theorem callWithRetries_unknown_model:
  assumes "gp_model aiPayload \<notin> set ClaudeModel \<union> set GPTModel \<union> set GroqModel \<union> set GeminiModel"
  shows "callWithRetries world identifier aiPayload aiConfig retries =
           Inl (new_Error ''Invalid AI payload: Unknown model type.'')"
  using assms
  by (simp add: callWithRetries_def isAnthropicPayload_def isOpenAiPayload_def
      isGroqPayload_def isGoogleAIPayload_def)

theorem callWithRetries_unknown_model_witness:
  "gp_model unknown_model_payload \<notin> set ClaudeModel \<union> set GPTModel \<union> set GroqModel \<union> set GeminiModel \<and>
   callWithRetries silent_world ''test'' unknown_model_payload None None =
     Inl (new_Error ''Invalid AI payload: Unknown model type.'')"
proof -
  have m: "gp_model unknown_model_payload \<notin>
      set ClaudeModel \<union> set GPTModel \<union> set GroqModel \<union> set GeminiModel"
    by (simp add: unknown_model_payload_def ClaudeModel_def GPTModel_def GroqModel_def
        GeminiModel_def)
  from m callWithRetries_unknown_model [OF m, of silent_world "''test''" None None]
  show ?thesis by simp
qed

section \<open>Properties of the retry and fallback controller\<close>

declare retry_loop.simps [simp del]

lemma remediate_table:
  "remediate i error pc = table_remediation i (error_code error) pc"
proof (cases "snd pc")
  case None
  then show ?thesis
    by (simp add: remediate_def table_remediation_def Let_def switch_to_openai_def)
next
  case (Some c)
  then show ?thesis
    by (cases "oc_service c")
       (auto simp: remediate_def table_remediation_def Let_def switch_to_openai_def)
qed

lemma retry_loop_calls:
  "rr_calls (retry_loop f ident retries i p c) =
     table_run f (nat (retries + 1 - int i)) i (p, c)"
proof (induction f ident retries i p c rule: retry_loop.induct)
  case (1 f ident retries i p c)
  show ?case
  proof (cases "int i \<le> retries")
    case False
    then show ?thesis by (simp add: retry_loop.simps [of f ident retries i p c])
  next
    case True
    then have n: "nat (retries + 1 - int i) = Suc (nat (retries + 1 - int (Suc i)))"
      by simp
    show ?thesis
    proof (cases "callOpenAIStream (f i) p c")
      case (Inr res)
      with True show ?thesis
        by (simp add: retry_loop.simps [of f ident retries i p c] n del: of_nat_Suc)
    next
      case (Inl error)
      obtain p' c' where pc': "remediate i error (p, c) = (p', c')"
        by (cases "remediate i error (p, c)")
      have "rr_calls (retry_loop f ident retries (Suc i) p' c') =
              table_run f (nat (retries + 1 - int (Suc i))) (Suc i) (p', c')"
        using "1.IH" [OF True Inl, of "remediate i error (p, c)"] pc' by simp
      with True Inl pc' show ?thesis
        by (simp add: retry_loop.simps [of f ident retries i p c] n Let_def
            remediate_table [symmetric] del: of_nat_Suc)
    qed
  qed
qed




subsection \<open>Bounds and outcomes of the retry loops\<close>

declare anthropic_retry_loop.simps [simp del]
declare groq_retry_loop.simps [simp del]

lemma table_run_length: "length (table_run f n i pc) \<le> n"
  by (induction n arbitrary: i pc) (auto split: sum.splits)

text \<open>
  The OpenAI-compatible path makes at most \<open>retries + 1\<close> attempts (6 by default), and
  what it throws is the aggregate error, whose message names \<open>retries\<close>.
\<close>

lemma callOpenAiWithRetries_attempts_bounded:
  "length (rr_calls (callOpenAiWithRetries f ident p c retries)) \<le>
     nat ((case retries of None \<Rightarrow> 5 | Some n \<Rightarrow> n) + 1)"
  using retry_loop_calls [of f ident "case retries of None \<Rightarrow> 5 | Some n \<Rightarrow> n" 0 p c]
    table_run_length [of f "nat ((case retries of None \<Rightarrow> 5 | Some n \<Rightarrow> n) + 1)" 0 "(p, c)"]
  by (simp add: callOpenAiWithRetries_def)

lemma retry_loop_outcome:
  "(case rr_outcome (retry_loop f ident retries i p c) of
      Inl e \<Rightarrow>
        e = new_Error (exhausted_message ident retries) \<and>
        length (rr_calls (retry_loop f ident retries i p c)) = nat (retries + 1 - int i)
    | Inr res \<Rightarrow>
        rr_calls (retry_loop f ident retries i p c) \<noteq> [] \<and>
        callOpenAIStream
          (f (i + length (rr_calls (retry_loop f ident retries i p c)) - 1))
          (fst (last (rr_calls (retry_loop f ident retries i p c))))
          (snd (last (rr_calls (retry_loop f ident retries i p c)))) = Inr res)"
proof (induction f ident retries i p c rule: retry_loop.induct)
  case (1 f ident retries i p c)
  show ?case
  proof (cases "int i \<le> retries")
    case False
    then show ?thesis by (simp add: retry_loop.simps [of f ident retries i p c])
  next
    case True
    then have n: "nat (retries + 1 - int i) = Suc (nat (retries - int i))"
      by simp
    show ?thesis
    proof (cases "callOpenAIStream (f i) p c")
      case (Inr res)
      with True show ?thesis
        by (simp add: retry_loop.simps [of f ident retries i p c])
    next
      case (Inl error)
      define r where
        "r = retry_loop f ident retries (Suc i) (fst (remediate i error (p, c)))
               (snd (remediate i error (p, c)))"
      have unfold: "retry_loop f ident retries i p c = r\<lparr>rr_calls := (p, c) # rr_calls r\<rparr>"
        using True Inl by (simp add: retry_loop.simps [of f ident retries i p c] r_def Let_def)
      have IH: "(case rr_outcome r of
          Inl e \<Rightarrow>
            e = new_Error (exhausted_message ident retries) \<and>
            length (rr_calls r) = nat (retries + 1 - int (Suc i))
        | Inr res \<Rightarrow>
            rr_calls r \<noteq> [] \<and>
            callOpenAIStream (f (Suc i + length (rr_calls r) - 1))
              (fst (last (rr_calls r))) (snd (last (rr_calls r))) = Inr res)"
        using "1.IH" [OF True Inl, of "remediate i error (p, c)"] unfolding r_def by simp
      show ?thesis
      proof (cases "rr_outcome r")
        case (Inl e)
        with IH True show ?thesis by (simp add: unfold n)
      next
        case (Inr res)
        with IH show ?thesis by (simp add: unfold)
      qed
    qed
  qed
qed

lemma anthropic_retry_loop_outcome:
  "length (ar_calls (anthropic_retry_loop t cfg attempts i p)) \<le> nat (attempts - int i) \<and>
   (case ar_outcome (anthropic_retry_loop t cfg attempts i p) of
      Inl e \<Rightarrow>
        e = new_Error (''Failed to call Anthropic API after '' @ show_int attempts @ '' attempts'') \<and>
        length (ar_calls (anthropic_retry_loop t cfg attempts i p)) = nat (attempts - int i)
    | Inr res \<Rightarrow>
        ar_calls (anthropic_retry_loop t cfg attempts i p) \<noteq> [] \<and>
        callAnthropic
          (t (i + length (ar_calls (anthropic_retry_loop t cfg attempts i p)) - 1))
          (last (ar_calls (anthropic_retry_loop t cfg attempts i p))) cfg = Inr res)"
proof (induction t cfg attempts i p rule: anthropic_retry_loop.induct)
  case (1 t cfg attempts i p)
  show ?case
  proof (cases "int i < attempts")
    case False
    then show ?thesis
      by (simp add: anthropic_retry_loop.simps [of t cfg attempts i p] new_Error_def)
  next
    case True
    then have n: "nat (attempts - int i) = Suc (nat (attempts - int (Suc i)))"
      by simp
    define p1 where
      "p1 = (if int i = attempts - 1 then p\<lparr>ap_model := ClaudeModel_SONNET\<rparr> else p)"
    show ?thesis
    proof (cases "callAnthropic (t i) p1 cfg")
      case (Inr res)
      with True show ?thesis
        by (simp add: anthropic_retry_loop.simps [of t cfg attempts i p] p1_def Let_def)
    next
      case (Inl e)
      define p2 where
        "p2 = (if is_rate_limit_error e then p1\<lparr>ap_model := ClaudeModel_SONNET\<rparr> else p1)"
      define r where "r = anthropic_retry_loop t cfg attempts (Suc i) p2"
      have unfold: "anthropic_retry_loop t cfg attempts i p = r\<lparr>ar_calls := p1 # ar_calls r\<rparr>"
        using True Inl
        by (simp add: anthropic_retry_loop.simps [of t cfg attempts i p] p1_def p2_def r_def Let_def)
      have IH: "length (ar_calls r) \<le> nat (attempts - int (Suc i)) \<and>
        (case ar_outcome r of
           Inl e \<Rightarrow>
             e = new_Error (''Failed to call Anthropic API after '' @ show_int attempts @ '' attempts'') \<and>
             length (ar_calls r) = nat (attempts - int (Suc i))
         | Inr res \<Rightarrow>
             ar_calls r \<noteq> [] \<and>
             callAnthropic (t (Suc i + length (ar_calls r) - 1)) (last (ar_calls r)) cfg = Inr res)"
        using "1.IH" [OF True p1_def Inl p2_def] unfolding r_def .
      show ?thesis
      proof (cases "ar_outcome r")
        case (Inl e')
        with IH True show ?thesis by (simp add: unfold n del: of_nat_Suc)
      next
        case (Inr res)
        with IH True show ?thesis by (simp add: unfold n del: of_nat_Suc)
      qed
    qed
  qed
qed

lemma groq_retry_loop_outcome:
  "gr_calls (groq_retry_loop post p retries i) \<le> nat (retries - int i) \<and>
   (case gr_outcome (groq_retry_loop post p retries i) of
      Inl e \<Rightarrow>
        e = new_Error (''Failed to call Groq API after '' @ show_int retries @ '' attempts'') \<and>
        gr_calls (groq_retry_loop post p retries i) = nat (retries - int i)
    | Inr res \<Rightarrow>
        0 < gr_calls (groq_retry_loop post p retries i) \<and>
        callGroq (post (i + gr_calls (groq_retry_loop post p retries i) - 1)) p = Inr res)"
proof (induction post p retries i rule: groq_retry_loop.induct)
  case (1 post p retries i)
  show ?case
  proof (cases "int i < retries")
    case False
    then show ?thesis
      by (simp add: groq_retry_loop.simps [of post p retries i] new_Error_def)
  next
    case True
    then have n: "nat (retries - int i) = Suc (nat (retries - int (Suc i)))"
      by simp
    show ?thesis
    proof (cases "callGroq (post i) p")
      case (Inr res)
      with True show ?thesis
        by (simp add: groq_retry_loop.simps [of post p retries i])
    next
      case (Inl e)
      define r where "r = groq_retry_loop post p retries (Suc i)"
      have unfold: "groq_retry_loop post p retries i = r\<lparr>gr_calls := Suc (gr_calls r)\<rparr>"
        using True Inl by (simp add: groq_retry_loop.simps [of post p retries i] r_def Let_def)
      have IH: "gr_calls r \<le> nat (retries - int (Suc i)) \<and>
        (case gr_outcome r of
           Inl e \<Rightarrow>
             e = new_Error (''Failed to call Groq API after '' @ show_int retries @ '' attempts'') \<and>
             gr_calls r = nat (retries - int (Suc i))
         | Inr res \<Rightarrow> 0 < gr_calls r \<and> callGroq (post (Suc i + gr_calls r - 1)) p = Inr res)"
        using "1.IH" [OF True Inl] unfolding r_def .
      show ?thesis
      proof (cases "gr_outcome r")
        case (Inl e')
        with IH True show ?thesis by (simp add: unfold n del: of_nat_Suc)
      next
        case (Inr res)
        with IH True show ?thesis by (simp add: unfold n del: of_nat_Suc)
      qed
    qed
  qed
qed

text \<open>
  C8, at a failing input. With the default bound and a transport that fails every
  attempt, the OpenAI-compatible path makes six attempts, and the aggregate error it
  throws says "after 5 attempts": the message embeds \<open>retries\<close>, not the number of
  attempts. On the Anthropic path, where every attempt is answered with a rate-limit error
  response, five attempts are made and the aggregate error carries no response.
\<close>

theorem exhaustion_error_at_default_bound:
  "length (rr_calls (callOpenAiWithRetries offline_fetch ''id'' plain_payload None None)) = 6 \<and>
   rr_outcome (callOpenAiWithRetries offline_fetch ''id'' plain_payload None None) =
     Inl (new_Error (''id: Failed to call OpenAI API after 5 attempts. '' @
                     ''Please lookup OpenAI status for active issues.'')) \<and>
   length (ar_calls (callAnthropicWithRetries rate_limited_anthropic haiku_payload None None)) = 5 \<and>
   (\<exists>e. ar_outcome (callAnthropicWithRetries rate_limited_anthropic haiku_payload None None) = Inl e \<and>
        er_message e = ''Failed to call Anthropic API after 5 attempts'' \<and>
        er_response e = None \<and> er_response_data e = None)"
proof -
  have 1: "length (rr_calls (callOpenAiWithRetries offline_fetch ''id'' plain_payload None None)) = 6"
    by code_simp
  have 2: "rr_outcome (callOpenAiWithRetries offline_fetch ''id'' plain_payload None None) =
     Inl (new_Error (''id: Failed to call OpenAI API after 5 attempts. '' @
                     ''Please lookup OpenAI status for active issues.''))"
    by code_simp
  have 3: "length (ar_calls (callAnthropicWithRetries rate_limited_anthropic haiku_payload None None)) = 5"
    by code_simp
  have 4: "ar_outcome (callAnthropicWithRetries rate_limited_anthropic haiku_payload None None) =
     Inl (new_Error ''Failed to call Anthropic API after 5 attempts'')"
    by code_simp
  from 1 2 3 4 show ?thesis by (simp add: new_Error_def)
qed

section \<open>Properties of the streaming loop\<close>

lemma process_jsonString_Return:
  "process_jsonString p names i st piece = Return m \<Longrightarrow>
     js_includes piece ''[DONE]'' \<and>
     parseStreamedResponse (paragraph_acc st) (functionCallName st) (functionCallArgs st) names = Inr m"
  by (auto simp: process_jsonString_def split: if_splits sum.splits option.splits)



lemma read_loop_Inr:
  "read_loop p names i st reads = Inr m \<Longrightarrow>
     \<exists>bufs bytes rest st'.
       reads = map Value bufs @ Value bytes # rest \<and>
       process_chunks p names i st bufs = Continue st' \<and>
       process_chunk p names (i + length bufs) st' bytes = Return m"
proof (induction p names i st reads rule: read_loop.induct)
  case (1 p names i st)
  then show ?case by simp
next
  case (2 p names i st reads)
  then show ?case by simp
next
  case (3 p names i st error reads)
  then show ?case by simp
next
  case (4 p names i st bytes reads)
  show ?case
  proof (cases "process_chunk p names i st bytes")
    case (Continue st1)
    with 4 obtain bufs b rest st' where
      "reads = map Value bufs @ Value b # rest"
      "process_chunks p names (Suc i) st1 bufs = Continue st'"
      "process_chunk p names (Suc i + length bufs) st' b = Return m"
      by auto
    with Continue have
      "Value bytes # reads = map Value (bytes # bufs) @ Value b # rest \<and>
       process_chunks p names i st (bytes # bufs) = Continue st' \<and>
       process_chunk p names (i + length (bytes # bufs)) st' b = Return m"
      by simp
    then show ?thesis by blast
  next
    case (Return m')
    with 4 have "m' = m" by simp
    with Return have
      "Value bytes # reads = map Value [] @ Value bytes # reads \<and>
       process_chunks p names i st [] = Continue st \<and>
       process_chunk p names (i + length ([] :: string list)) st bytes = Return m"
      by simp
    then show ?thesis by blast
  next
    case (Throw e)
    with 4 show ?thesis by simp
  qed
qed



text \<open>
  C5, at a failing input. The second record of the stream is a text delta whose text is
  the six characters of the sentinel. The loop takes it for the end of the stream: it
  returns the text of the first record alone, and never reads the two records and the
  sentinel record that follow.
\<close>

theorem record_mentioning_sentinel_ends_stream:
  "read_loop plain_payload None 0 initial_stream_state mention_stream =
     Inr \<lparr>p_role = Assistant, p_content = Some (JStr ''The stream ends with ''),
          p_function_call = None\<rparr> \<and>
   read_loop plain_payload None 0 initial_stream_state (take 2 mention_stream) =
     Inr \<lparr>p_role = Assistant, p_content = Some (JStr ''The stream ends with ''),
          p_function_call = None\<rparr>"
proof -
  have 1: "read_loop plain_payload None 0 initial_stream_state mention_stream =
     Inr \<lparr>p_role = Assistant, p_content = Some (JStr ''The stream ends with ''),
          p_function_call = None\<rparr>"
    by code_simp
  have 2: "read_loop plain_payload None 0 initial_stream_state (take 2 mention_stream) =
     Inr \<lparr>p_role = Assistant, p_content = Some (JStr ''The stream ends with ''),
          p_function_call = None\<rparr>"
    by code_simp
  from 1 2 show ?thesis by simp
qed

text \<open>
  C1, at a failing input. The same bytes, one record with the text "cafe" whose last letter
  carries an acute accent (U+00E9, two bytes) and the sentinel, give the text with that character when they
  arrive as one buffer, and the text with two replacement characters in its place when
  the buffers are cut between the two bytes: each buffer is decoded on its own.
\<close>

theorem split_inside_character_changes_text:
  "read_loop plain_payload None 0 initial_stream_state cafe_whole =
     Inr \<lparr>p_role = Assistant, p_content = Some (JStr (''caf'' @ [CHR 0xC3, CHR 0xA9])),
          p_function_call = None\<rparr> \<and>
   read_loop plain_payload None 0 initial_stream_state cafe_split =
     Inr \<lparr>p_role = Assistant,
          p_content = Some (JStr (''caf'' @ [CHR 0xEF, CHR 0xBF, CHR 0xBD, CHR 0xEF, CHR 0xBF, CHR 0xBD])),
          p_function_call = None\<rparr>"
proof -
  have whole: "read_loop plain_payload None 0 initial_stream_state cafe_whole =
     Inr \<lparr>p_role = Assistant, p_content = Some (JStr (''caf'' @ [CHR 0xC3, CHR 0xA9])),
          p_function_call = None\<rparr>"
    by code_simp
  have split: "read_loop plain_payload None 0 initial_stream_state cafe_split =
     Inr \<lparr>p_role = Assistant,
          p_content = Some (JStr (''caf'' @ [CHR 0xEF, CHR 0xBF, CHR 0xBD, CHR 0xEF, CHR 0xBF, CHR 0xBD])),
          p_function_call = None\<rparr>"
    by code_simp
  from whole split show ?thesis by simp
qed




text \<open>
  What the framing does implement. A piece that does not parse is kept as the partial
  record; the next buffer is split with the partial record in front of it; and on the
  scenario of the specification, cuts inside a record body, inside the record-start
  marker and inside the sentinel give the message that one buffer gives.
\<close>

lemma unparsed_piece_is_kept:
  assumes "piece \<noteq> []" and "\<not> js_includes piece ''[DONE]''"
    and "JSON_parse (js_trim piece) = None"
  shows "process_jsonString p names i st piece = Continue (st\<lparr>partialChunk := piece\<rparr>)"
  using assms by (simp add: process_jsonString_def)

lemma partial_record_is_prepended:
  assumes "partialChunk st \<noteq> []"
  shows "process_chunk p names i st bytes =
     process_jsonStrings p names i
       (st\<lparr>rawStreamedBody := rawStreamedBody st @ TextDecoder_decode bytes @ [LF],
           partialChunk := []\<rparr>)
       (split_data (partialChunk st @ TextDecoder_decode bytes))"
  using assms by (simp add: process_chunk_def Let_def)

lemma cuts_between_characters_example:
  "read_loop plain_payload None 0 initial_stream_state hello_whole =
     Inr \<lparr>p_role = Assistant, p_content = Some (JStr ''Hello''), p_function_call = None\<rparr> \<and>
   read_loop plain_payload None 0 initial_stream_state hello_cut =
     Inr \<lparr>p_role = Assistant, p_content = Some (JStr ''Hello''), p_function_call = None\<rparr>"
proof -
  have whole: "read_loop plain_payload None 0 initial_stream_state hello_whole =
     Inr \<lparr>p_role = Assistant, p_content = Some (JStr ''Hello''), p_function_call = None\<rparr>"
    by code_simp
  have cut: "read_loop plain_payload None 0 initial_stream_state hello_cut =
     Inr \<lparr>p_role = Assistant, p_content = Some (JStr ''Hello''), p_function_call = None\<rparr>"
    by code_simp
  from whole cut show ?thesis by simp
qed

section \<open>Response completeness on the provider paths\<close>

text \<open>
  C3, at a failing input. For a Groq model whose answer is an assistant message with
  empty content and no tool calls, and for a Gemini model whose response has empty text
  and no function calls, callWithRetries returns a message with neither content nor
  function call: these two paths make no check.
\<close>

theorem groq_and_google_return_empty_message:
  "callWithRetries empty_answer_world ''id'' (joke_request ''llama3-70b-8192'') None None =
     Inr \<lparr>p_role = Assistant, p_content = None, p_function_call = None\<rparr> \<and>
   callWithRetries empty_answer_world ''id'' (joke_request ''gemini-1.5-pro-latest'') None None =
     Inr \<lparr>p_role = Assistant, p_content = None, p_function_call = None\<rparr>"
proof -
  have groq:
    "callWithRetries empty_answer_world ''id'' (joke_request ''llama3-70b-8192'') None None =
       Inr \<lparr>p_role = Assistant, p_content = None, p_function_call = None\<rparr>"
    by code_simp
  have google:
    "callWithRetries empty_answer_world ''id'' (joke_request ''gemini-1.5-pro-latest'') None None =
       Inr \<lparr>p_role = Assistant, p_content = None, p_function_call = None\<rparr>"
    by code_simp
  from groq google show ?thesis by simp
qed

text \<open>
  The two sibling paths do make the check: a message the OpenAI stream reader returns
  comes from parseStreamedResponse, and a message callAnthropic returns has text or a
  function call.
\<close>

lemma process_jsonStrings_Return_parse:
  "process_jsonStrings p names i st pieces = Return m \<Longrightarrow>
     \<exists>st' :: stream_state.
        parseStreamedResponse (paragraph_acc st') (functionCallName st') (functionCallArgs st')
          names = Inr m"
proof (induction pieces arbitrary: st)
  case Nil
  then show ?case by simp
next
  case (Cons piece pieces)
  show ?case
  proof (cases "process_jsonString p names i st piece")
    case (Continue st1)
    with Cons show ?thesis by simp
  next
    case (Return m')
    with Cons.prems have "m' = m" by simp
    with Return have "process_jsonString p names i st piece = Return m" by simp
    from process_jsonString_Return [OF this] show ?thesis by blast
  next
    case (Throw e)
    with Cons.prems show ?thesis by simp
  qed
qed

lemma read_loop_complete:
  assumes "read_loop p names i st reads = Inr m"
  shows "p_role m = Assistant \<and> (p_content m \<noteq> None \<or> p_function_call m \<noteq> None)"
proof -
  from read_loop_Inr [OF assms] obtain bufs :: "string list" and bytes st1 where
    "process_chunk p names (i + length bufs) st1 bytes = Return m"
    by blast
  then obtain st' :: stream_state where
    "parseStreamedResponse (paragraph_acc st') (functionCallName st') (functionCallArgs st') names
       = Inr m"
    by (auto simp: process_chunk_def Let_def dest: process_jsonStrings_Return_parse)
  then show ?thesis
    unfolding parseStreamedResponse_Inr_iff by (auto split: if_splits)
qed

lemma callOpenAIStream_complete:
  assumes "callOpenAIStream fetch p c = Inr m"
  shows "p_role m = Assistant \<and> (p_content m \<noteq> None \<or> p_function_call m \<noteq> None)"
proof -
  from assms obtain names i st reads where "read_loop p names i st reads = Inr m"
    by (auto simp: callOpenAIStream_def Let_def
        split: sum.splits fetch_result.splits option.splits if_splits)
  then show ?thesis by (rule read_loop_complete)
qed

lemma parse_anthropic_data_complete:
  assumes "parse_anthropic_data d = Inr m"
  shows "p_role m = Assistant \<and>
         (\<exists>t. p_content m = Some (JStr t) \<and> (t \<noteq> [] \<or> p_function_call m \<noteq> None))"
proof -
  from assms obtain textResponse functionCalls where
    m: "m = \<lparr>p_role = Assistant, p_content = Some (JStr textResponse),
              p_function_call = (case functionCalls of [] \<Rightarrow> None | call # _ \<Rightarrow> Some call)\<rparr>"
    and ne: "\<not> (textResponse = [] \<and> functionCalls = [])"
    unfolding parse_anthropic_data_def
    by (simp split: sum.splits if_splits prod.splits) blast
  show ?thesis
  proof (cases functionCalls)
    case Nil
    with m ne show ?thesis by simp
  next
    case (Cons call calls)
    with m show ?thesis by simp
  qed
qed

lemma callAnthropic_complete:
  assumes "callAnthropic t p c = Inr m"
  shows "p_role m = Assistant \<and>
         (\<exists>t. p_content m = Some (JStr t) \<and> (t \<noteq> [] \<or> p_function_call m \<noteq> None))"
  using assms
  by (auto simp: callAnthropic_def Let_def dest: parse_anthropic_data_complete
      split: sum.splits if_splits option.splits)

end
